theory Spec2Isabelle
  imports Main "HOL-Library.Char_ord" "HOL-Library.List_Lexorder"
    "HOL-Library.Product_Lexorder"
begin

section \<open>JavaScript strings and values\<close>

text \<open>
  Strings are lists of characters. The model covers the one-byte (Latin-1) range of
  JavaScript's code units; \<open>length\<close> is then JavaScript's \<open>.length\<close>.
  The functions below are the library calls the source makes on strings:
  \<open>String.prototype.trim\<close>, \<open>toLowerCase\<close>, \<open>includes\<close> and
  \<open>split(',')[0]\<close>.
\<close>

definition isWhiteSpace :: "char \<Rightarrow> bool" where
  "isWhiteSpace c =
     (c \<in> set [CHR 0x09, CHR 0x0A, CHR 0x0B, CHR 0x0C, CHR 0x0D, CHR 0x20, CHR 0xA0])"

definition trim :: "string \<Rightarrow> string" where
  "trim s = rev (dropWhile isWhiteSpace (rev (dropWhile isWhiteSpace s)))"

definition isUpper :: "char \<Rightarrow> bool" where
  "isUpper c =
     (let n = (of_char c :: nat)
      in (65 \<le> n \<and> n \<le> 90) \<or> (192 \<le> n \<and> n \<le> 222 \<and> n \<noteq> 215))"

text \<open>An upper-case letter of this range becomes lower case by setting bit 5 (adding 32).\<close>

definition lowerChar :: "char \<Rightarrow> char" where
  "lowerChar c =
     (if isUpper c
      then (case c of Char b0 b1 b2 b3 b4 b5 b6 b7 \<Rightarrow> Char b0 b1 b2 b3 b4 True b6 b7)
      else c)"

definition toLowerCase :: "string \<Rightarrow> string" where
  "toLowerCase s = map lowerChar s"

fun startsWith :: "string \<Rightarrow> string \<Rightarrow> bool" where
  "startsWith s [] = True"
| "startsWith [] (p # ps) = False"
| "startsWith (c # cs) (p # ps) = (c = p \<and> startsWith cs ps)"

fun includes_str :: "string \<Rightarrow> string \<Rightarrow> bool" where
  "includes_str [] t = (t = [])"
| "includes_str (c # cs) t = (startsWith (c # cs) t \<or> includes_str cs t)"

text \<open>\<open>s.split(',')[0]\<close>: the text before the first comma (all of it when there is none).\<close>

definition splitCommaFirst :: "string \<Rightarrow> string" where
  "splitCommaFirst s = takeWhile (\<lambda>c. c \<noteq> CHR '','') s"

text \<open>
  A field of a stored document that the code reads as an optional string: it may be
  missing (\<open>undefined\<close>), \<open>null\<close>, or a string. \<open>truthy\<close> is JavaScript's
  truthiness on these values: \<open>undefined\<close>, \<open>null\<close> and the empty string are falsy.
\<close>

datatype jsval = JUndefined | JNull | JString string

fun truthy :: "jsval \<Rightarrow> bool" where
  "truthy JUndefined = False"
| "truthy JNull = False"
| "truthy (JString s) = (s \<noteq> [])"

section \<open>Record model (services/firestore.ts, services/api.ts)\<close>

text \<open>
  A document of the \<open>leads\<close> collection as the store holds it: its document id and the
  fields the query layer reads. \<open>d_created_at\<close> is the instant of the creation timestamp
  (\<open>None\<close> when the field is missing). The remaining optional fields of a lead (address,
  phone, rating, ...) are copied unchanged by \<open>docToLead\<close> and read by no filter; they are
  left out of the model.
\<close>

record lead_doc =
  doc_id :: string
  d_business_name :: string
  d_category :: jsval
  d_status :: jsval
  d_created_at :: "nat option"

text \<open>The adapter's \<open>Lead\<close> (firestore.ts) and the facade's \<open>Lead\<close> (api.ts), which adds \<open>_id\<close>.\<close>

record Lead =
  id' :: string
  business_name :: string
  category :: jsval
  status :: jsval
  created_at :: "nat option"

record APILead = Lead +
  api_id :: string

text \<open>\<open>docToLead\<close>: \<open>status: data.status || 'new'\<close>.\<close>

definition docToLead :: "lead_doc \<Rightarrow> Lead" where
  "docToLead d =
     \<lparr> id' = doc_id d,
       business_name = d_business_name d,
       category = d_category d,
       status = (if truthy (d_status d) then d_status d else JString ''new''),
       created_at = d_created_at d \<rparr>"

text \<open>\<open>toAPILead\<close>: \<open>{...lead, _id: lead.id}\<close>.\<close>

definition toAPILead :: "Lead \<Rightarrow> APILead" where
  "toAPILead l = Lead.extend l (APILead.fields (id' l))"

section \<open>The document store (the Firestore SDK as the adapter uses it)\<close>

text \<open>
  Query constraints as \<open>getAll\<close> and \<open>getStats\<close> build them:
  \<open>where('status', 'in', vs)\<close>, \<open>orderBy('created_at', 'desc')\<close> and \<open>limit(n)\<close>.
\<close>

datatype constraint =
    WhereStatusIn "string list"
  | OrderByCreatedAtDesc
  | Limit nat

text \<open>
  The store applies a membership filter to the stored field itself (a missing, null or
  other status matches no value). Ordering by a field leaves out the documents that lack
  it; documents with equal instants are ordered by document id, in the same direction
  (ids compare as strings, character by character). Descending order is the reverse of
  the ascending order on the pair (instant, document id). The code lists its constraints
  in the order filter, order, limit, which is the order the store evaluates them in.
\<close>

definition created_key :: "lead_doc \<Rightarrow> nat \<times> string" where
  "created_key d = ((case d_created_at d of None \<Rightarrow> 0 | Some t \<Rightarrow> t), doc_id d)"

definition status_in :: "string list \<Rightarrow> lead_doc \<Rightarrow> bool" where
  "status_in vs d = (case d_status d of JString s \<Rightarrow> s \<in> set vs | _ \<Rightarrow> False)"

fun run_constraint :: "constraint \<Rightarrow> lead_doc list \<Rightarrow> lead_doc list" where
  "run_constraint (WhereStatusIn vs) ds = filter (status_in vs) ds"
| "run_constraint OrderByCreatedAtDesc ds =
     rev (sort_key created_key (filter (\<lambda>d. d_created_at d \<noteq> None) ds))"
| "run_constraint (Limit n) ds = take n ds"

definition run_query :: "constraint list \<Rightarrow> lead_doc list \<Rightarrow> lead_doc list" where
  "run_query cs ds = fold run_constraint cs ds"

text \<open>
  Errors the adapter's callers can see: the adapter's own \<open>Error('Lead not found')\<close>,
  the store's not-found error (\<open>updateDoc\<close> on a missing document), a transport
  failure, the store's rejection of an argument (a non-positive \<open>limit\<close>, an
  \<open>undefined\<close> field value in update data), and the \<open>TypeError\<close> of
  reading the data of a snapshot that does not exist. The last one is the modal's own
  \<open>Error('Failed to update status')\<close>.
\<close>

datatype error =
    LeadNotFound
  | FirestoreNotFound
  | Unavailable
  | InvalidArgument
  | TypeError
  | UpdateFailed

record note_doc =
  lead_id :: string
  content :: string
  created_by :: string
  contact_method :: string
  contact_date :: string

text \<open>The calls issued to the store, in order (a failed call is a call all the same).\<close>

datatype call =
    GetDocs "constraint list"
  | GetCount "constraint list"
  | GetDoc string
  | UpdateDoc string
  | DeleteDoc string
  | AddNote string

text \<open>
  The store: the leads and notes collections, whether each can be reached
  (a call to an unreachable collection fails with \<open>Unavailable\<close>), and the calls so far.
\<close>

record store =
  leads_docs :: "lead_doc list"
  notes_docs :: "note_doc list"
  leads_up :: bool
  notes_up :: bool
  calls :: "call list"

definition issue :: "call \<Rightarrow> store \<Rightarrow> store" where
  "issue c s = s\<lparr>calls := calls s @ [c]\<rparr>"

definition getDocs :: "constraint list \<Rightarrow> store \<Rightarrow> (error + lead_doc list) \<times> store" where
  "getDocs cs s =
     (if leads_up s then Inr (run_query cs (leads_docs s)) else Inl Unavailable,
      issue (GetDocs cs) s)"

definition getCountFromServer :: "constraint list \<Rightarrow> store \<Rightarrow> (error + nat) \<times> store" where
  "getCountFromServer cs s =
     (if leads_up s then Inr (length (run_query cs (leads_docs s))) else Inl Unavailable,
      issue (GetCount cs) s)"

text \<open>\<open>doc(leadsCollection, id)\<close>: the document with that id, if the collection has one.\<close>

definition lookupDoc :: "string \<Rightarrow> store \<Rightarrow> lead_doc option" where
  "lookupDoc i s = find (\<lambda>d. doc_id d = i) (leads_docs s)"

definition getDoc :: "string \<Rightarrow> store \<Rightarrow> (error + lead_doc option) \<times> store" where
  "getDoc i s =
     (if leads_up s then Inr (lookupDoc i s) else Inl Unavailable,
      issue (GetDoc i) s)"

text \<open>A partial lead, as \<open>update\<close> receives it (\<open>None\<close>: the key is not in the object).\<close>

record LeadPatch =
  patch_business_name :: "string option"
  patch_category :: "jsval option"
  patch_status :: "jsval option"

definition apply_patch :: "LeadPatch \<Rightarrow> lead_doc \<Rightarrow> lead_doc" where
  "apply_patch p d =
     d\<lparr> d_business_name := (case patch_business_name p of None \<Rightarrow> d_business_name d | Some v \<Rightarrow> v),
        d_category := (case patch_category p of None \<Rightarrow> d_category d | Some v \<Rightarrow> v),
        d_status := (case patch_status p of None \<Rightarrow> d_status d | Some v \<Rightarrow> v) \<rparr>"

text \<open>
  The store refuses update data that holds a key with the value \<open>undefined\<close>: it throws
  its invalid-argument error while it reads the data, before anything is sent.
\<close>

definition hasUndefinedValue :: "LeadPatch \<Rightarrow> bool" where
  "hasUndefinedValue p =
     (patch_category p = Some JUndefined \<or> patch_status p = Some JUndefined)"

text \<open>\<open>updateDoc\<close> fails on a document that does not exist; \<open>deleteDoc\<close> does not.\<close>

definition updateDoc :: "string \<Rightarrow> LeadPatch \<Rightarrow> store \<Rightarrow> (error + unit) \<times> store" where
  "updateDoc i p s =
     (if hasUndefinedValue p then (Inl InvalidArgument, s)
      else if \<not> leads_up s then (Inl Unavailable, issue (UpdateDoc i) s)
      else if lookupDoc i s = None
      then (Inl FirestoreNotFound, issue (UpdateDoc i) s)
      else (Inr (),
            issue (UpdateDoc i)
              (s\<lparr>leads_docs :=
                    map (\<lambda>d. if doc_id d = i then apply_patch p d else d) (leads_docs s)\<rparr>)))"

definition deleteDoc :: "string \<Rightarrow> store \<Rightarrow> (error + unit) \<times> store" where
  "deleteDoc i s =
     (if \<not> leads_up s then (Inl Unavailable, issue (DeleteDoc i) s)
      else (Inr (),
            issue (DeleteDoc i)
              (s\<lparr>leads_docs := filter (\<lambda>d. doc_id d \<noteq> i) (leads_docs s)\<rparr>)))"

text \<open>\<open>addDoc(notesCollection, noteData)\<close>; the new document's id is its position.\<close>

definition addDoc :: "note_doc \<Rightarrow> store \<Rightarrow> (error + nat) \<times> store" where
  "addDoc n s =
     (if \<not> notes_up s then (Inl Unavailable, issue (AddNote (lead_id n)) s)
      else (Inr (length (notes_docs s)),
            issue (AddNote (lead_id n)) (s\<lparr>notes_docs := notes_docs s @ [n]\<rparr>)))"

section \<open>The document-store adapter (services/firestore.ts, leadsService)\<close>

datatype StatusFilter = StatusAll | StatusNotContacted | StatusContacted

record LeadsStats =
  all :: nat
  notContacted :: nat
  contacted :: nat

record LeadsQueryParams =
  p_status :: "StatusFilter option"
  p_search :: "string option"
  p_page :: "nat option"
  p_limit :: "nat option"

record 'a Paginated =
  success :: bool
  data :: "'a list"
  total :: nat
  page :: nat
  limit :: nat
  totalPages :: nat
  stats :: LeadsStats

definition contactedStatuses :: "string list" where
  "contactedStatuses = [''contacted'', ''qualified'', ''converted'']"

text \<open>\<open>getStats\<close>: two count queries, the second one filtered; \<open>notContacted: all - contacted\<close>.\<close>

definition getStats :: "store \<Rightarrow> (error + LeadsStats) \<times> store" where
  "getStats s =
     (case getCountFromServer [] s of
        (Inl e, s1) \<Rightarrow> (Inl e, s1)
      | (Inr a, s1) \<Rightarrow>
          (case getCountFromServer [WhereStatusIn contactedStatuses] s1 of
             (Inl e, s2) \<Rightarrow> (Inl e, s2)
           | (Inr c, s2) \<Rightarrow>
               (Inr \<lparr> all = a, notContacted = a - c, contacted = c \<rparr>, s2)))"

text \<open>The parts of \<open>getAll\<close>, in the order of the source.\<close>

definition fetchLimit :: "StatusFilter \<Rightarrow> nat \<Rightarrow> nat" where
  "fetchLimit st lim = (if st = StatusNotContacted then lim * 3 else lim)"

definition constraints :: "StatusFilter \<Rightarrow> nat \<Rightarrow> constraint list" where
  "constraints st lim =
     (if st = StatusContacted then [WhereStatusIn contactedStatuses] else [])
     @ [OrderByCreatedAtDesc]
     @ [Limit (fetchLimit st lim)]"

text \<open>\<open>lead.status === 'new' || !lead.status\<close>\<close>

definition notContactedPred :: "Lead \<Rightarrow> bool" where
  "notContactedPred l = (status l = JString ''new'' \<or> \<not> truthy (status l))"

text \<open>\<open>lead.business_name.toLowerCase().includes(searchLower)\<close>\<close>

definition searchPred :: "string \<Rightarrow> Lead \<Rightarrow> bool" where
  "searchPred q l = includes_str (toLowerCase (business_name l)) (toLowerCase q)"

text \<open>The two client-side filters of \<open>getAll\<close>: \<open>if (status === 'not_contacted')\<close>, \<open>if (search)\<close>.\<close>

definition statusClientFilter :: "StatusFilter \<Rightarrow> Lead list \<Rightarrow> Lead list" where
  "statusClientFilter st ls =
     (if st = StatusNotContacted then filter notContactedPred ls else ls)"

definition searchClientFilter :: "string option \<Rightarrow> Lead list \<Rightarrow> Lead list" where
  "searchClientFilter search ls =
     (case search of
        None \<Rightarrow> ls
      | Some q \<Rightarrow> if q \<noteq> [] then filter (searchPred q) ls else ls)"

text \<open>\<open>Math.ceil(total / limit)\<close> for a positive \<open>limit\<close>.\<close>

definition ceilDiv :: "nat \<Rightarrow> nat \<Rightarrow> nat" where
  "ceilDiv t l = (t + l - 1) div l"

text \<open>
  \<open>getAll\<close>, with the defaults of
  \<open>const { status = 'all', search, page = 1, limit = 15 } = params\<close>.
  \<open>limit(n)\<close> rejects \<open>n = 0\<close> when the constraint is built, before any call.
  The page only appears in the result: the rows returned are \<open>leads.slice(0, limit)\<close>.
\<close>

definition statusParam :: "LeadsQueryParams \<Rightarrow> StatusFilter" where
  "statusParam params = (case p_status params of None \<Rightarrow> StatusAll | Some v \<Rightarrow> v)"

definition pageParam :: "LeadsQueryParams \<Rightarrow> nat" where
  "pageParam params = (case p_page params of None \<Rightarrow> 1 | Some v \<Rightarrow> v)"

definition limitParam :: "LeadsQueryParams \<Rightarrow> nat" where
  "limitParam params = (case p_limit params of None \<Rightarrow> 15 | Some v \<Rightarrow> v)"

definition getAll :: "LeadsQueryParams \<Rightarrow> store \<Rightarrow> (error + Lead Paginated) \<times> store" where
  "getAll params s =
     (let st = statusParam params;
          search = p_search params;
          pg = pageParam params;
          lim = limitParam params
      in if fetchLimit st lim = 0 then (Inl InvalidArgument, s)
         else
           (case getDocs (constraints st lim) s of
              (Inl e, s1) \<Rightarrow> (Inl e, s1)
            | (Inr docs, s1) \<Rightarrow>
                (let leads = take lim (searchClientFilter search
                                     (statusClientFilter st (map docToLead docs)))
                 in case getStats s1 of
                      (Inl e, s2) \<Rightarrow> (Inl e, s2)
                    | (Inr sts, s2) \<Rightarrow>
                        (Inr \<lparr> success = True, data = leads, total = all sts, page = pg,
                               limit = lim, totalPages = ceilDiv (all sts) lim,
                               stats = sts \<rparr>, s2))))"

text \<open>
  \<open>getById\<close> (the lead itself; the three child collections it also reads are not
  modelled), \<open>update\<close> and \<open>delete\<close>.
\<close>

definition getById :: "string \<Rightarrow> store \<Rightarrow> (error + Lead) \<times> store" where
  "getById i s =
     (case getDoc i s of
        (Inl e, s1) \<Rightarrow> (Inl e, s1)
      | (Inr None, s1) \<Rightarrow> (Inl LeadNotFound, s1)
      | (Inr (Some d), s1) \<Rightarrow> (Inr (docToLead d), s1))"

definition update :: "string \<Rightarrow> LeadPatch \<Rightarrow> store \<Rightarrow> (error + Lead) \<times> store" where
  "update i p s =
     (case updateDoc i p s of
        (Inl e, s1) \<Rightarrow> (Inl e, s1)
      | (Inr u, s1) \<Rightarrow>
          (case getDoc i s1 of
             (Inl e, s2) \<Rightarrow> (Inl e, s2)
           | (Inr None, s2) \<Rightarrow> (Inl TypeError, s2)
           | (Inr (Some d), s2) \<Rightarrow> (Inr (docToLead d), s2)))"

definition delete :: "string \<Rightarrow> store \<Rightarrow> (error + bool) \<times> store" where
  "delete i s =
     (case deleteDoc i s of
        (Inl e, s1) \<Rightarrow> (Inl e, s1)
      | (Inr u, s1) \<Rightarrow> (Inr True, s1))"

text \<open>\<open>notesService.create\<close>\<close>

definition notes_create ::
  "string \<Rightarrow> string \<Rightarrow> string \<Rightarrow> string \<Rightarrow> string \<Rightarrow> store \<Rightarrow> (error + nat) \<times> store" where
  "notes_create leadId cont createdBy contactMethod contactDate s =
     addDoc \<lparr> lead_id = leadId, content = cont, created_by = createdBy,
              contact_method = contactMethod, contact_date = contactDate \<rparr> s"

section \<open>The facade (services/api.ts, leadsAPI and notesAPI over the adapter)\<close>

definition leadsAPI_getAll ::
  "LeadsQueryParams \<Rightarrow> store \<Rightarrow> (error + APILead Paginated) \<times> store" where
  "leadsAPI_getAll params s =
     (case getAll params s of
        (Inl e, s1) \<Rightarrow> (Inl e, s1)
      | (Inr r, s1) \<Rightarrow>
          (Inr \<lparr> success = success r, data = map toAPILead (data r), total = total r,
                 page = page r, limit = limit r, totalPages = totalPages r,
                 stats = stats r \<rparr>, s1))"

text \<open>\<open>leadsAPI.update\<close>: \<open>toFirestoreLead\<close> renames \<open>_id\<close>, which \<open>update\<close> then deletes.\<close>

definition leadsAPI_update ::
  "string \<Rightarrow> LeadPatch \<Rightarrow> store \<Rightarrow> (error + bool \<times> APILead) \<times> store" where
  "leadsAPI_update i p s =
     (case update i p s of
        (Inl e, s1) \<Rightarrow> (Inl e, s1)
      | (Inr l, s1) \<Rightarrow> (Inr (True, toAPILead l), s1))"

definition leadsAPI_delete :: "string \<Rightarrow> store \<Rightarrow> (error + bool) \<times> store" where
  "leadsAPI_delete i s = delete i s"

definition notesAPI_create ::
  "string \<Rightarrow> string \<Rightarrow> string \<Rightarrow> string \<Rightarrow> string \<Rightarrow> store \<Rightarrow> (error + nat) \<times> store" where
  "notesAPI_create leadId cont createdBy contactMethod contactDate s =
     notes_create leadId cont createdBy contactMethod contactDate s"

section \<open>The dashboard controller (components/LeadsDashboard.tsx)\<close>

text \<open>\<open>isContacted\<close>, the status badge's classification.\<close>

definition isContacted :: "APILead \<Rightarrow> bool" where
  "isContacted l =
     (status l = JString ''contacted'' \<or> status l = JString ''qualified''
      \<or> status l = JString ''converted'')"

text \<open>\<open>lead.category.split(',')[0].trim().toLowerCase()\<close>, for a lead with a category.\<close>

definition mainCategoryLower :: "APILead \<Rightarrow> string" where
  "mainCategoryLower l =
     (case category l of
        JString c \<Rightarrow> toLowerCase (trim (splitCommaFirst c))
      | _ \<Rightarrow> [])"

definition categoryPred :: "string \<Rightarrow> APILead \<Rightarrow> bool" where
  "categoryPred cat l =
     (if \<not> truthy (category l) then False else mainCategoryLower l = toLowerCase cat)"

datatype log = ConsoleError error | ConsoleWarn error

text \<open>
  The controller's state. \<open>currentPage\<close> is at least 1 and \<open>itemsPerPage\<close> is one of
  10, 15, 25, 50: the initial state and every setter keep it so.
\<close>

record dashboard =
  leads :: "APILead list"
  allLeadsForCategories :: "APILead list"
  searchQuery :: string
  statusFilter :: StatusFilter
  categoryFilter :: string
  itemsPerPage :: nat
  currentPage :: nat
  st_totalPages :: nat
  st_total :: nat
  st_stats :: LeadsStats
  console :: "log list"

text \<open>
  The controller's state before the first fetch, with no URL parameters: the defaults of
  the \<open>useState\<close> calls.
\<close>

definition initialDashboard :: dashboard where
  "initialDashboard =
     \<lparr> leads = [], allLeadsForCategories = [], searchQuery = [], statusFilter = StatusAll,
       categoryFilter = ''all'', itemsPerPage = 15, currentPage = 1, st_totalPages = 1,
       st_total = 0, st_stats = \<lparr> all = 0, notContacted = 0, contacted = 0 \<rparr>,
       console = [] \<rparr>"

text \<open>The thick path's filters: category, then status, then search.\<close>

definition thickStatusFilter :: "StatusFilter \<Rightarrow> APILead list \<Rightarrow> APILead list" where
  "thickStatusFilter st ls =
     (if st = StatusContacted
      then filter (\<lambda>l. status l = JString ''contacted'' \<or> status l = JString ''qualified''
                        \<or> status l = JString ''converted'') ls
      else if st = StatusNotContacted
      then filter (\<lambda>l. status l = JString ''new'' \<or> \<not> truthy (status l)) ls
      else ls)"

definition thickSearchFilter :: "string \<Rightarrow> APILead list \<Rightarrow> APILead list" where
  "thickSearchFilter q ls =
     (if q \<noteq> []
      then filter (\<lambda>l. includes_str (toLowerCase (business_name l)) (toLowerCase q)) ls
      else ls)"

definition filteredLeads :: "dashboard \<Rightarrow> APILead list" where
  "filteredLeads d =
     thickSearchFilter (searchQuery d)
       (thickStatusFilter (statusFilter d)
          (filter (categoryPred (categoryFilter d)) (allLeadsForCategories d)))"

text \<open>
  \<open>filteredLeads.slice(startIndex, startIndex + itemsPerPage)\<close> with
  \<open>startIndex = (currentPage - 1) * itemsPerPage\<close>; at page 0 the slice would end at
  index 0 and be empty.
\<close>

definition paginate :: "nat \<Rightarrow> nat \<Rightarrow> 'a list \<Rightarrow> 'a list" where
  "paginate pg lim xs = (if pg = 0 then [] else take lim (drop ((pg - 1) * lim) xs))"

text \<open>\<open>fetchLeads\<close>: the thick path when a category is selected and the snapshot is not empty.\<close>

definition thickPath :: "dashboard \<Rightarrow> bool" where
  "thickPath d = (categoryFilter d \<noteq> ''all'' \<and> allLeadsForCategories d \<noteq> [])"

definition fetchLeads :: "dashboard \<Rightarrow> store \<Rightarrow> dashboard \<times> store" where
  "fetchLeads d s =
     (if thickPath d then
        (let fl = filteredLeads d;
             contactedCount =
               length (filter (\<lambda>l. status l = JString ''contacted''
                                    \<or> status l = JString ''qualified''
                                    \<or> status l = JString ''converted'') fl)
         in (d\<lparr> leads := paginate (currentPage d) (itemsPerPage d) fl,
                st_totalPages :=
                  (if ceilDiv (length fl) (itemsPerPage d) = 0 then 1
                   else ceilDiv (length fl) (itemsPerPage d)),
                st_total := length fl,
                st_stats := \<lparr> all = length fl, notContacted = length fl - contactedCount,
                              contacted = contactedCount \<rparr> \<rparr>, s))
      else
        (case leadsAPI_getAll
                \<lparr> p_status = Some (statusFilter d),
                  p_search = (if searchQuery d \<noteq> [] then Some (searchQuery d) else None),
                  p_page = Some (currentPage d),
                  p_limit = Some (itemsPerPage d) \<rparr> s of
           (Inl e, s1) \<Rightarrow> (d\<lparr>console := console d @ [ConsoleError e]\<rparr>, s1)
         | (Inr r, s1) \<Rightarrow>
             (if success r
              then d\<lparr> leads := data r, st_totalPages := totalPages r, st_total := total r,
                      st_stats := stats r \<rparr>
              else d, s1)))"

text \<open>\<open>fetchCategories\<close>: the snapshot, fetched once with \<open>{ limit: 1000 }\<close>.\<close>

definition fetchCategories :: "dashboard \<Rightarrow> store \<Rightarrow> dashboard \<times> store" where
  "fetchCategories d s =
     (case leadsAPI_getAll
             \<lparr> p_status = None, p_search = None, p_page = None, p_limit = Some 1000 \<rparr> s of
        (Inl e, s1) \<Rightarrow> (d\<lparr>console := console d @ [ConsoleError e]\<rparr>, s1)
      | (Inr r, s1) \<Rightarrow>
          (if success r then d\<lparr>allLeadsForCategories := data r\<rparr> else d, s1))"

section \<open>The mark-contacted flow (components/ContactStatusModal.tsx)\<close>

text \<open>
  What \<open>handleSubmit\<close> leaves behind: the error shown, the lead handed to \<open>onSuccess\<close>,
  whether \<open>onClose\<close> ran, and what was written to the console.
\<close>

record modal_result =
  shown_error :: "string option"
  onSuccess :: "APILead option"
  onClose :: bool
  modal_console :: "log list"

text \<open>The modal's own \<open>isContacted\<close>, \<open>newStatus\<close> and \<open>requiresNotes\<close>.\<close>

definition modal_isContacted :: "APILead \<Rightarrow> bool" where
  "modal_isContacted l =
     (status l = JString ''contacted'' \<or> status l = JString ''qualified''
      \<or> status l = JString ''converted'')"

definition newStatus :: "APILead \<Rightarrow> string" where
  "newStatus l = (if modal_isContacted l then ''new'' else ''contacted'')"

definition requiresNotes :: "APILead \<Rightarrow> bool" where
  "requiresNotes l = (\<not> modal_isContacted l)"

definition statusPatch :: "string \<Rightarrow> LeadPatch" where
  "statusPatch v =
     \<lparr> patch_business_name = None, patch_category = None, patch_status = Some (JString v) \<rparr>"

text \<open>
  \<open>handleSubmit\<close> for the lead \<open>l\<close>, the text \<open>notes\<close> of the notes field, the signed-in
  user's first name (\<open>None\<close> when nobody is signed in), the contact method and date.
\<close>

definition handleSubmit ::
  "APILead \<Rightarrow> string \<Rightarrow> string option \<Rightarrow> string \<Rightarrow> string \<Rightarrow> store \<Rightarrow> modal_result \<times> store" where
  "handleSubmit l notes user contactMethod contactDate s =
     (if requiresNotes l \<and> length (trim notes) < 10
      then (\<lparr> shown_error = Some ''Please add notes about the contact (minimum 10 characters)'',
               onSuccess = None, onClose = False, modal_console = [] \<rparr>, s)
      else
        (case leadsAPI_update (api_id l) (statusPatch (newStatus l)) s of
           (Inl e, s1) \<Rightarrow>
             (\<lparr> shown_error = Some ''Failed to update status. Please try again.'',
                onSuccess = None, onClose = False, modal_console = [ConsoleError e] \<rparr>, s1)
         | (Inr (ok, updated), s1) \<Rightarrow>
             (if \<not> ok
              then (\<lparr> shown_error = Some ''Failed to update status. Please try again.'',
                       onSuccess = None, onClose = False,
                       modal_console = [ConsoleError UpdateFailed] \<rparr>, s1)
              else
                (case user of
                   Some firstName \<Rightarrow>
                     (if requiresNotes l \<and> trim notes \<noteq> [] then
                        (case notesAPI_create (api_id l) (trim notes) firstName
                                contactMethod contactDate s1 of
                           (Inl noteErr, s2) \<Rightarrow>
                             (\<lparr> shown_error = None, onSuccess = Some updated, onClose = True,
                                modal_console = [ConsoleWarn noteErr] \<rparr>, s2)
                         | (Inr n, s2) \<Rightarrow>
                             (\<lparr> shown_error = None, onSuccess = Some updated, onClose = True,
                                modal_console = [] \<rparr>, s2))
                      else (\<lparr> shown_error = None, onSuccess = Some updated, onClose = True,
                               modal_console = [] \<rparr>, s1))
                 | None \<Rightarrow>
                     (\<lparr> shown_error = None, onSuccess = Some updated, onClose = True,
                        modal_console = [] \<rparr>, s1)))))"

section \<open>Definitions used to state the properties\<close>

text \<open>
  The counts over the whole collection: every document, and the documents whose stored
  status is one of contacted, qualified, converted.
\<close>

definition wholeStats :: "store \<Rightarrow> LeadsStats" where
  "wholeStats s =
     \<lparr> all = length (leads_docs s),
       notContacted = length (leads_docs s) - length (filter (status_in contactedStatuses) (leads_docs s)),
       contacted = length (filter (status_in contactedStatuses) (leads_docs s)) \<rparr>"

text \<open>
  The three status values of the derived group "contacted".
\<close>

definition contactedSet :: "jsval set" where
  "contactedSet = {JString ''contacted'', JString ''qualified'', JString ''converted''}"

text \<open>
  The counts over a list of leads, as the thick path computes them.
\<close>

definition statsOf :: "APILead list \<Rightarrow> LeadsStats" where
  "statsOf ls =
     \<lparr> all = length ls,
       notContacted = length ls - length (filter (\<lambda>l. status l \<in> contactedSet) ls),
       contacted = length (filter (\<lambda>l. status l \<in> contactedSet) ls) \<rparr>"

text \<open>
  The collection as \<open>orderBy('created_at', 'desc')\<close> returns it.
\<close>

definition ordered :: "lead_doc list \<Rightarrow> lead_doc list" where
  "ordered ds = rev (sort_key created_key (filter (\<lambda>d. d_created_at d \<noteq> None) ds))"

text \<open>
  The documents left after the filter that \<open>getAll\<close> hands to the store: the contacted
  ones for status contacted, all of them otherwise.
\<close>

definition pushed :: "StatusFilter \<Rightarrow> lead_doc list \<Rightarrow> lead_doc list" where
  "pushed st ds = (if st = StatusContacted then filter (status_in contactedStatuses) ds else ds)"

section \<open>Example collections\<close>

text \<open>
  Two leads in different categories, one never contacted (no stored status) and one
  contacted; two leads of the retail category; eleven retail leads of which only the
  oldest is named "Bar None"; and thirty-one retail leads of which only the oldest is not
  contacted.
\<close>

definition docA :: lead_doc where
  "docA = \<lparr> doc_id = ''a'', d_business_name = ''Alpha Foods'',
            d_category = JString ''Retail, Food'', d_status = JUndefined,
            d_created_at = Some 2 \<rparr>"

definition docB :: lead_doc where
  "docB = \<lparr> doc_id = ''b'', d_business_name = ''Beta Tools'',
            d_category = JString ''hardware'', d_status = JString ''contacted'',
            d_created_at = Some 1 \<rparr>"


definition emptyStore :: store where
  "emptyStore = \<lparr> leads_docs = [], notes_docs = [], leads_up = True, notes_up = True, calls = [] \<rparr>"

definition store2 :: store where
  "store2 = emptyStore\<lparr>leads_docs := [docB, docA]\<rparr>"







section \<open>Facts about the adapter\<close>

lemma getStats_up:
  "leads_up s \<Longrightarrow>
   getStats s = (Inr (wholeStats s),
                 s\<lparr>calls := calls s @ [GetCount [], GetCount [WhereStatusIn contactedStatuses]]\<rparr>)"
  by (simp add: getStats_def getCountFromServer_def issue_def run_query_def wholeStats_def)

lemma fetchLimit_pos: "0 < fetchLimit st lim \<longleftrightarrow> 0 < lim"
  by (simp add: fetchLimit_def)

lemma getAll_up:
  assumes "leads_up s" and "0 < fetchLimit (statusParam ps) (limitParam ps)"
  shows "getAll ps s =
     (Inr \<lparr> success = True,
            data = take (limitParam ps) (searchClientFilter (p_search ps) (statusClientFilter (statusParam ps)
                     (map docToLead (run_query (constraints (statusParam ps) (limitParam ps)) (leads_docs s))))),
            total = length (leads_docs s), page = pageParam ps, limit = limitParam ps,
            totalPages = ceilDiv (length (leads_docs s)) (limitParam ps),
            stats = wholeStats s \<rparr>,
      s\<lparr>calls := calls s @ [GetDocs (constraints (statusParam ps) (limitParam ps)), GetCount [],
                            GetCount [WhereStatusIn contactedStatuses]]\<rparr>)"
  using assms
  by (simp add: getAll_def getDocs_def issue_def getStats_up wholeStats_def Let_def)

lemma leadsAPI_getAll_up:
  assumes "leads_up s" and "0 < limitParam ps"
  shows "leadsAPI_getAll ps s =
     (Inr \<lparr> success = True,
            data = map toAPILead (take (limitParam ps) (searchClientFilter (p_search ps)
                     (statusClientFilter (statusParam ps)
                     (map docToLead (run_query (constraints (statusParam ps) (limitParam ps)) (leads_docs s)))))),
            total = length (leads_docs s), page = pageParam ps, limit = limitParam ps,
            totalPages = ceilDiv (length (leads_docs s)) (limitParam ps),
            stats = wholeStats s \<rparr>,
      s\<lparr>calls := calls s @ [GetDocs (constraints (statusParam ps) (limitParam ps)), GetCount [],
                            GetCount [WhereStatusIn contactedStatuses]]\<rparr>)"
  using assms by (simp add: leadsAPI_getAll_def getAll_up fetchLimit_pos)

lemma status_in_contacted:
  "status_in contactedStatuses d \<longleftrightarrow> d_status d \<in> contactedSet"
  by (cases "d_status d") (auto simp: status_in_def contactedStatuses_def contactedSet_def)

lemma docToLead_contacted:
  "status (docToLead d) \<in> contactedSet \<longleftrightarrow> d_status d \<in> contactedSet"
  by (cases "d_status d") (auto simp: docToLead_def contactedSet_def)

lemma toAPILead_sel:
  "status (toAPILead l) = status l"
  "business_name (toAPILead l) = business_name l"
  "category (toAPILead l) = category l"
  by (simp_all add: toAPILead_def Lead.defs)

lemma find_map_patch:
  "find (\<lambda>d. doc_id d = i) (map (\<lambda>d. if doc_id d = i then apply_patch p d else d) ds)
   = map_option (apply_patch p) (find (\<lambda>d. doc_id d = i) ds)"
  by (induction ds) (simp_all add: apply_patch_def)

lemma statusPatch_defined: "\<not> hasUndefinedValue (statusPatch v)"
  by (simp add: hasUndefinedValue_def statusPatch_def)

lemma update_existing:
  assumes "\<not> hasUndefinedValue p" and "leads_up s" and "lookupDoc i s = Some d0"
  shows "update i p s = (Inr (docToLead (apply_patch p d0)),
      s\<lparr>leads_docs := map (\<lambda>d. if doc_id d = i then apply_patch p d else d) (leads_docs s),
        calls := calls s @ [UpdateDoc i, GetDoc i]\<rparr>)"
  using assms
  by (simp add: update_def updateDoc_def getDoc_def issue_def lookupDoc_def find_map_patch)

lemma update_fails:
  assumes "\<not> hasUndefinedValue p" and "\<not> leads_up s \<or> lookupDoc i s = None"
  shows "\<exists>e. update i p s = (Inl e, s\<lparr>calls := calls s @ [UpdateDoc i]\<rparr>)"
  using assms
  by (auto simp add: update_def updateDoc_def issue_def)



lemma set_ordered: "set (ordered ds) \<subseteq> set ds"
  by (auto simp: ordered_def)


lemma run_query_constraints:
  "run_query (constraints st lim) ds = take (fetchLimit st lim) (ordered (pushed st ds))"
  by (simp add: run_query_def constraints_def ordered_def pushed_def)

lemma fetchLeads_thin:
  assumes "\<not> thickPath d" and "leads_up s" and "0 < itemsPerPage d"
  shows "fetchLeads d s =
     (d\<lparr> leads := map toAPILead (take (itemsPerPage d)
                     (searchClientFilter (if searchQuery d \<noteq> [] then Some (searchQuery d) else None)
                        (statusClientFilter (statusFilter d)
                           (map docToLead (run_query (constraints (statusFilter d) (itemsPerPage d))
                                             (leads_docs s)))))),
         st_totalPages := ceilDiv (length (leads_docs s)) (itemsPerPage d),
         st_total := length (leads_docs s),
         st_stats := wholeStats s \<rparr>,
      s\<lparr>calls := calls s @ [GetDocs (constraints (statusFilter d) (itemsPerPage d)), GetCount [],
                            GetCount [WhereStatusIn contactedStatuses]]\<rparr>)"
  using assms
  by (simp add: fetchLeads_def leadsAPI_getAll_up limitParam_def statusParam_def pageParam_def)

lemma fetchLeads_thick:
  assumes "thickPath d"
  shows "fetchLeads d s =
     (d\<lparr> leads := paginate (currentPage d) (itemsPerPage d) (filteredLeads d),
         st_totalPages := (if ceilDiv (length (filteredLeads d)) (itemsPerPage d) = 0 then 1
                           else ceilDiv (length (filteredLeads d)) (itemsPerPage d)),
         st_total := length (filteredLeads d),
         st_stats := statsOf (filteredLeads d) \<rparr>, s)"
proof -
  have "(\<lambda>l::APILead. status l = JString ''contacted'' \<or> status l = JString ''qualified''
                                    \<or> status l = JString ''converted'') = (\<lambda>l. status l \<in> contactedSet)"
    by (rule ext) (auto simp: contactedSet_def)
  then show ?thesis using assms
    by (simp add: fetchLeads_def statsOf_def Let_def)
qed

section \<open>Read-side normalization\<close>

lemma truthy_docToLead: "truthy (status (docToLead d))"
  by (simp add: docToLead_def)

lemma getAll_data_present:
  "(case fst (getAll ps s) of
      Inl e \<Rightarrow> True
    | Inr r \<Rightarrow> list_all (\<lambda>l. truthy (status l)) (data r))"
  by (auto simp: getAll_def Let_def getDocs_def getStats_def getCountFromServer_def issue_def
        list_all_iff searchClientFilter_def statusClientFilter_def truthy_docToLead
        split: if_splits option.splits sum.splits dest!: in_set_takeD)

lemma getById_present:
  "(case fst (getById i s) of Inl e \<Rightarrow> True | Inr l \<Rightarrow> truthy (status l))"
  by (simp add: getById_def getDoc_def truthy_docToLead split: option.splits)

lemma update_present:
  "(case fst (update i p s) of Inl e \<Rightarrow> True | Inr l \<Rightarrow> truthy (status l))"
  by (simp add: update_def updateDoc_def getDoc_def truthy_docToLead split: option.splits)

text \<open>
  C10. Every lead produced by \<open>docToLead\<close> carries a present (truthy) status: a stored
  status that is missing, null or the empty string is read as \<open>'new'\<close>, and any other
  stored status is kept; \<open>toAPILead\<close> passes the status on unchanged. Every lead that
  \<open>getAll\<close>, \<open>getById\<close> and \<open>update\<close> return comes from \<open>docToLead\<close>, so no caller of
  the adapter sees a lead without a status.
\<close>

theorem docToLead_status_present:
  "truthy (status (docToLead d))
   \<and> status (docToLead d) \<noteq> JUndefined
   \<and> status (docToLead d) \<noteq> JNull
   \<and> status (docToLead d) \<noteq> JString ''''
   \<and> status (docToLead (d\<lparr>d_status := JUndefined\<rparr>)) = JString ''new''
   \<and> status (docToLead (d\<lparr>d_status := JNull\<rparr>)) = JString ''new''
   \<and> status (docToLead (d\<lparr>d_status := JString ''''\<rparr>)) = JString ''new''
   \<and> status (docToLead d) = (if truthy (d_status d) then d_status d else JString ''new'')
   \<and> status (toAPILead (docToLead d)) = status (docToLead d)
   \<and> (case fst (getAll ps s) of
         Inl e \<Rightarrow> True
       | Inr r \<Rightarrow> list_all (\<lambda>l. truthy (status l)) (data r))
   \<and> (case fst (getById i s) of Inl e \<Rightarrow> True | Inr l \<Rightarrow> truthy (status l))
   \<and> (case fst (update i p s) of Inl e \<Rightarrow> True | Inr l \<Rightarrow> truthy (status l))"
proof -
  have a: "truthy (status (docToLead d))
   \<and> status (docToLead d) \<noteq> JUndefined
   \<and> status (docToLead d) \<noteq> JNull
   \<and> status (docToLead d) \<noteq> JString ''''
   \<and> status (docToLead (d\<lparr>d_status := JUndefined\<rparr>)) = JString ''new''
   \<and> status (docToLead (d\<lparr>d_status := JNull\<rparr>)) = JString ''new''
   \<and> status (docToLead (d\<lparr>d_status := JString ''''\<rparr>)) = JString ''new''
   \<and> status (docToLead d) = (if truthy (d_status d) then d_status d else JString ''new'')
   \<and> status (toAPILead (docToLead d)) = status (docToLead d)"
    by (cases "d_status d") (simp_all add: docToLead_def toAPILead_def Lead.defs)
  show ?thesis
    using a getAll_data_present[of ps s] getById_present[of i s] update_present[of i p s]
    by blast
qed

section \<open>Status classification\<close>

lemma set_searchClientFilter: "set (searchClientFilter q ys) \<subseteq> set ys"
  by (auto simp: searchClientFilter_def split: option.splits)

lemma set_thickSearchFilter: "set (thickSearchFilter q ys) \<subseteq> set ys"
  by (auto simp: thickSearchFilter_def)

lemma set_paginate: "set (paginate pg lim xs) \<subseteq> set xs"
  by (auto simp: paginate_def dest!: in_set_takeD in_set_dropD)

lemma getAll_data_subset:
  assumes "fst (getAll ps s) = Inr r"
  shows "set (data r) \<subseteq> set (statusClientFilter (statusParam ps)
            (map docToLead (ordered (pushed (statusParam ps) (leads_docs s)))))"
proof -
  let ?st = "statusParam ps" and ?lim = "limitParam ps"
  let ?rows = "take (fetchLimit ?st ?lim) (ordered (pushed ?st (leads_docs s)))"
  from assms have "data r = take ?lim (searchClientFilter (p_search ps)
                     (statusClientFilter ?st (map docToLead ?rows)))"
    by (auto simp: getAll_def Let_def getDocs_def getStats_def getCountFromServer_def
          issue_def run_query_constraints split: if_splits)
  then have "set (data r) \<subseteq> set (statusClientFilter ?st (map docToLead ?rows))"
    using set_searchClientFilter[of "p_search ps" "statusClientFilter ?st (map docToLead ?rows)"]
      set_take_subset[of ?lim "searchClientFilter (p_search ps)
                     (statusClientFilter ?st (map docToLead ?rows))"]
    by auto
  moreover have "set (statusClientFilter ?st (map docToLead ?rows))
        \<subseteq> set (statusClientFilter ?st (map docToLead (ordered (pushed ?st (leads_docs s)))))"
    by (auto simp: statusClientFilter_def dest!: in_set_takeD)
  ultimately show ?thesis by blast
qed

lemma getAll_contacted_only:
  "(case fst (getAll \<lparr> p_status = Some StatusContacted, p_search = q, p_page = pg,
                        p_limit = lm \<rparr> s) of
      Inl e \<Rightarrow> True
    | Inr r \<Rightarrow> list_all (\<lambda>x. status x \<in> contactedSet) (data r))"
proof (cases "fst (getAll \<lparr> p_status = Some StatusContacted, p_search = q, p_page = pg,
                        p_limit = lm \<rparr> s)")
  case (Inl e)
  then show ?thesis by simp
next
  case (Inr r)
  have "set (data r) \<subseteq> docToLead ` set (filter (status_in contactedStatuses) (leads_docs s))"
    using getAll_data_subset[OF Inr] set_ordered[of "filter (status_in contactedStatuses) (leads_docs s)"]
    by (auto simp: statusParam_def pushed_def statusClientFilter_def)
  then have "\<forall>x \<in> set (data r). status x \<in> contactedSet"
    by (auto simp: status_in_contacted docToLead_contacted)
  with Inr show ?thesis by (simp add: list_all_iff)
qed

lemma getAll_not_contacted_only:
  "(case fst (getAll \<lparr> p_status = Some StatusNotContacted, p_search = q, p_page = pg,
                        p_limit = lm \<rparr> s) of
      Inl e \<Rightarrow> True
    | Inr r \<Rightarrow> list_all (\<lambda>x. status x = JString ''new'') (data r))"
proof (cases "fst (getAll \<lparr> p_status = Some StatusNotContacted, p_search = q, p_page = pg,
                        p_limit = lm \<rparr> s)")
  case (Inl e)
  then show ?thesis by simp
next
  case (Inr r)
  have "\<forall>x \<in> set (data r). notContactedPred x \<and> (\<exists>d. x = docToLead d)"
    using getAll_data_subset[OF Inr]
    by (auto simp: statusParam_def statusClientFilter_def)
  then have "\<forall>x \<in> set (data r). status x = JString ''new''"
    using truthy_docToLead by (auto simp: notContactedPred_def)
  with Inr show ?thesis by (simp add: list_all_iff)
qed

lemma thick_leads_subset:
  assumes "thickPath d"
  shows "set (leads (fst (fetchLeads d s)))
           \<subseteq> set (thickStatusFilter (statusFilter d)
                    (filter (categoryPred (categoryFilter d)) (allLeadsForCategories d)))"
  using set_paginate[of "currentPage d" "itemsPerPage d" "filteredLeads d"]
    set_thickSearchFilter[of "searchQuery d" "thickStatusFilter (statusFilter d)
                    (filter (categoryPred (categoryFilter d)) (allLeadsForCategories d))"]
  by (simp add: fetchLeads_thick[OF assms] filteredLeads_def)

text \<open>
  C6. A lead is classified as contacted exactly when its status is one of contacted,
  qualified, converted: by the dashboard's badge (\<open>isContacted\<close>), by the modal, and by
  the store's membership filter (on the stored status, which agrees with the status
  read). The thick path's contacted filter keeps exactly these leads, its not-contacted
  filter and the adapter's keep exactly the leads whose status is \<open>'new'\<close> or absent, and
  no lead is in both groups. So a lead whose status is \<open>'new'\<close> or absent is never
  classified as contacted, is dropped by the contacted filters and kept by the
  not-contacted filters; a contacted lead is kept by the contacted filters and dropped by
  the not-contacted ones. Every lead that \<open>getAll\<close> returns for status contacted is
  contacted and every lead it returns for status not_contacted has status \<open>'new'\<close>; every
  lead the thick path shows under either status filter is of that group.
\<close>

theorem contacted_classification:
  "(isContacted l \<longleftrightarrow> status l \<in> contactedSet)
   \<and> (modal_isContacted l \<longleftrightarrow> status l \<in> contactedSet)
   \<and> (status_in contactedStatuses d \<longleftrightarrow> status (docToLead d) \<in> contactedSet)
   \<and> (status l \<in> contactedSet \<longrightarrow> \<not> (status l = JString ''new'' \<or> \<not> truthy (status l)))
   \<and> thickStatusFilter StatusContacted ls = filter (\<lambda>x. status x \<in> contactedSet) ls
   \<and> thickStatusFilter StatusNotContacted ls
       = filter (\<lambda>x. status x = JString ''new'' \<or> \<not> truthy (status x)) ls
   \<and> statusClientFilter StatusNotContacted ks
       = filter (\<lambda>x. status x = JString ''new'' \<or> \<not> truthy (status x)) ks
   \<and> run_constraint (WhereStatusIn contactedStatuses) ds
       = filter (\<lambda>x. status (docToLead x) \<in> contactedSet) ds
   \<and> (status l = JString ''new'' \<or> \<not> truthy (status l) \<longrightarrow>
         \<not> isContacted l \<and> \<not> modal_isContacted l
         \<and> thickStatusFilter StatusContacted [l] = []
         \<and> thickStatusFilter StatusNotContacted [l] = [l])
   \<and> (d_status d = JString ''new'' \<or> \<not> truthy (d_status d) \<longrightarrow>
         \<not> status_in contactedStatuses d
         \<and> statusClientFilter StatusNotContacted [docToLead d] = [docToLead d]
         \<and> \<not> isContacted (toAPILead (docToLead d)))
   \<and> (status l \<in> contactedSet \<longrightarrow>
         thickStatusFilter StatusContacted [l] = [l]
         \<and> thickStatusFilter StatusNotContacted [l] = [])
   \<and> (d_status d \<in> contactedSet \<longrightarrow>
         status_in contactedStatuses d
         \<and> statusClientFilter StatusNotContacted [docToLead d] = []
         \<and> isContacted (toAPILead (docToLead d)))
   \<and> (case fst (getAll \<lparr> p_status = Some StatusContacted, p_search = q, p_page = pg,
                          p_limit = lm \<rparr> s) of
        Inl e \<Rightarrow> True
      | Inr r \<Rightarrow> list_all (\<lambda>x. status x \<in> contactedSet) (data r))
   \<and> (case fst (getAll \<lparr> p_status = Some StatusNotContacted, p_search = q, p_page = pg,
                          p_limit = lm \<rparr> s) of
        Inl e \<Rightarrow> True
      | Inr r \<Rightarrow> list_all (\<lambda>x. status x = JString ''new'') (data r))
   \<and> (thickPath dd \<and> statusFilter dd = StatusContacted \<longrightarrow>
         list_all isContacted (leads (fst (fetchLeads dd s))))
   \<and> (thickPath dd \<and> statusFilter dd = StatusNotContacted \<longrightarrow>
         list_all (\<lambda>x. \<not> isContacted x \<and> (status x = JString ''new'' \<or> \<not> truthy (status x)))
           (leads (fst (fetchLeads dd s))))"
proof -
  have a: "isContacted l \<longleftrightarrow> status l \<in> contactedSet" for l
    by (auto simp: isContacted_def contactedSet_def)
  have b: "modal_isContacted l \<longleftrightarrow> status l \<in> contactedSet"
    by (auto simp: modal_isContacted_def contactedSet_def)
  have c: "status_in contactedStatuses d \<longleftrightarrow> status (docToLead d) \<in> contactedSet" for d
    using status_in_contacted docToLead_contacted by blast
  have g: "status l \<in> contactedSet \<longrightarrow> \<not> (status l = JString ''new'' \<or> \<not> truthy (status l))" for l :: APILead
    by (auto simp: contactedSet_def)
  have f1: "thickStatusFilter StatusContacted ls = filter (\<lambda>x. status x \<in> contactedSet) ls" for ls
    by (simp add: thickStatusFilter_def contactedSet_def)
  have f2: "thickStatusFilter StatusNotContacted ls
       = filter (\<lambda>x. status x = JString ''new'' \<or> \<not> truthy (status x)) ls" for ls
    by (simp add: thickStatusFilter_def)
  have np: "notContactedPred = (\<lambda>l. status l = JString ''new'' \<or> \<not> truthy (status l))"
    by (rule ext) (simp add: notContactedPred_def)
  have f3: "statusClientFilter StatusNotContacted ks
       = filter (\<lambda>x. status x = JString ''new'' \<or> \<not> truthy (status x)) ks" for ks
    by (simp add: statusClientFilter_def np)
  have f4: "run_constraint (WhereStatusIn contactedStatuses) ds
       = filter (\<lambda>x. status (docToLead x) \<in> contactedSet) ds"
    by (induction ds) (simp_all add: c)
  have e: "status l = JString ''new'' \<or> \<not> truthy (status l) \<longrightarrow>
         \<not> isContacted l \<and> \<not> modal_isContacted l
         \<and> thickStatusFilter StatusContacted [l] = []
         \<and> thickStatusFilter StatusNotContacted [l] = [l]"
    by (cases "status l") (auto simp: isContacted_def modal_isContacted_def thickStatusFilter_def)
  have f: "d_status d = JString ''new'' \<or> \<not> truthy (d_status d) \<longrightarrow>
         \<not> status_in contactedStatuses d
         \<and> statusClientFilter StatusNotContacted [docToLead d] = [docToLead d]
         \<and> \<not> isContacted (toAPILead (docToLead d))"
    by (cases "d_status d")
       (auto simp: status_in_def contactedStatuses_def statusClientFilter_def notContactedPred_def
          docToLead_def isContacted_def toAPILead_def Lead.defs)
  have h: "status l \<in> contactedSet \<longrightarrow>
         thickStatusFilter StatusContacted [l] = [l]
         \<and> thickStatusFilter StatusNotContacted [l] = []"
    by (auto simp: f1 f2 contactedSet_def)
  have i: "d_status d \<in> contactedSet \<longrightarrow>
         status_in contactedStatuses d
         \<and> statusClientFilter StatusNotContacted [docToLead d] = []
         \<and> isContacted (toAPILead (docToLead d))"
    by (auto simp: status_in_contacted f3 a toAPILead_sel docToLead_contacted contactedSet_def
          docToLead_def)
  have j: "thickPath dd \<and> statusFilter dd = StatusContacted \<longrightarrow>
         list_all isContacted (leads (fst (fetchLeads dd s)))"
    using thick_leads_subset[of dd s] by (auto simp: list_all_iff f1 a)
  have k: "thickPath dd \<and> statusFilter dd = StatusNotContacted \<longrightarrow>
         list_all (\<lambda>x. \<not> isContacted x \<and> (status x = JString ''new'' \<or> \<not> truthy (status x)))
           (leads (fst (fetchLeads dd s)))"
  proof (intro impI)
    assume tp: "thickPath dd \<and> statusFilter dd = StatusNotContacted"
    then have "\<forall>x \<in> set (leads (fst (fetchLeads dd s))).
                 status x = JString ''new'' \<or> \<not> truthy (status x)"
      using thick_leads_subset[of dd s] by (auto simp: f2)
    then show "list_all (\<lambda>x. \<not> isContacted x \<and> (status x = JString ''new'' \<or> \<not> truthy (status x)))
           (leads (fst (fetchLeads dd s)))"
      using g a by (auto simp: list_all_iff)
  qed
  show ?thesis
    using a[of l] b c[of d] g[of l] f1[of ls] f2[of ls] f3[of ks] f4 e f h i
      getAll_contacted_only[of q pg lm s] getAll_not_contacted_only[of q pg lm s] j k
    by blast
qed


text \<open>
  The lead without a stored status and the contacted lead, at every place.
\<close>

theorem contacted_classification_witness:
  "status (toAPILead (docToLead docA)) = JString ''new''
   \<and> \<not> isContacted (toAPILead (docToLead docA))
   \<and> \<not> modal_isContacted (toAPILead (docToLead docA))
   \<and> thickStatusFilter StatusContacted [toAPILead (docToLead docA)] = []
   \<and> thickStatusFilter StatusNotContacted [toAPILead (docToLead docA)]
       = [toAPILead (docToLead docA)]
   \<and> \<not> truthy (d_status docA)
   \<and> \<not> status_in contactedStatuses docA
   \<and> statusClientFilter StatusNotContacted [docToLead docA] = [docToLead docA]
   \<and> status (toAPILead (docToLead docB)) \<in> contactedSet
   \<and> isContacted (toAPILead (docToLead docB))
   \<and> modal_isContacted (toAPILead (docToLead docB))
   \<and> thickStatusFilter StatusContacted [toAPILead (docToLead docB)]
       = [toAPILead (docToLead docB)]
   \<and> thickStatusFilter StatusNotContacted [toAPILead (docToLead docB)] = []
   \<and> d_status docB \<in> contactedSet
   \<and> status_in contactedStatuses docB
   \<and> statusClientFilter StatusNotContacted [docToLead docB] = []
   \<and> thickPath ((fst (fetchCategories initialDashboard store2))
                  \<lparr>categoryFilter := ''hardware'', statusFilter := StatusContacted\<rparr>)
   \<and> list_all isContacted
        (leads (fst (fetchLeads ((fst (fetchCategories initialDashboard store2))
                  \<lparr>categoryFilter := ''hardware'', statusFilter := StatusContacted\<rparr>) store2)))
   \<and> thickPath ((fst (fetchCategories initialDashboard store2))
                  \<lparr>categoryFilter := ''retail'', statusFilter := StatusNotContacted\<rparr>)
   \<and> list_all (\<lambda>x. \<not> isContacted x \<and> (status x = JString ''new'' \<or> \<not> truthy (status x)))
        (leads (fst (fetchLeads ((fst (fetchCategories initialDashboard store2))
                  \<lparr>categoryFilter := ''retail'', statusFilter := StatusNotContacted\<rparr>) store2)))"
proof -
  let ?a = "toAPILead (docToLead docA)" and ?b = "toAPILead (docToLead docB)"
  let ?d1 = "(fst (fetchCategories initialDashboard store2))
                  \<lparr>categoryFilter := ''hardware'', statusFilter := StatusContacted\<rparr>"
  let ?d2 = "(fst (fetchCategories initialDashboard store2))
                  \<lparr>categoryFilter := ''retail'', statusFilter := StatusNotContacted\<rparr>"
  have h1: "status ?a = JString ''new''"
    by (simp add: docA_def docToLead_def toAPILead_def Lead.defs)
  have h2: "\<not> truthy (d_status docA)"
    by (simp add: docA_def)
  have h3: "status ?b \<in> contactedSet"
    by (simp add: docB_def docToLead_def toAPILead_def Lead.defs contactedSet_def)
  have h4: "d_status docB \<in> contactedSet"
    by (simp add: docB_def contactedSet_def)
  have snap: "allLeadsForCategories (fst (fetchCategories initialDashboard store2)) \<noteq> []"
    by (simp add: fetchCategories_def leadsAPI_getAll_def getAll_def getDocs_def getStats_def
        getCountFromServer_def run_query_def constraints_def fetchLimit_def issue_def
        statusClientFilter_def searchClientFilter_def statusParam_def pageParam_def
        limitParam_def created_key_def docA_def docB_def emptyStore_def store2_def Let_def)
  have t1: "thickPath ?d1 \<and> statusFilter ?d1 = StatusContacted"
    using snap by (simp add: thickPath_def)
  have t2: "thickPath ?d2 \<and> statusFilter ?d2 = StatusNotContacted"
    using snap by (simp add: thickPath_def)
  show ?thesis
    using h1 h2 h3 h4 t1 t2
      contacted_classification[where l = ?a and d = docA and dd = ?d1 and s = store2
        and ls = "[]" and ks = "[]" and ds = "[]" and q = None and pg = None and lm = None]
      contacted_classification[where l = ?b and d = docB and dd = ?d2 and s = store2
        and ls = "[]" and ks = "[]" and ds = "[]" and q = None and pg = None and lm = None]
    by blast
qed

section \<open>The adapter's list query\<close>

text \<open>
  C5. With status contacted, \<open>getAll\<close> sends the store the membership filter
  status in (contacted, qualified, converted), ordered by creation time descending and
  limited to \<open>limit\<close> rows. With status not_contacted it sends no status filter, asks
  for \<open>3 * limit\<close> rows ordered by creation time descending, keeps of them the leads
  whose status is \<open>'new'\<close> or absent, then applies the search filter and cuts the result
  to \<open>limit\<close> rows.
\<close>

theorem getAll_status_policy:
  assumes "leads_up s" and "0 < lim"
  shows
   "constraints StatusContacted lim =
      [WhereStatusIn [''contacted'', ''qualified'', ''converted''], OrderByCreatedAtDesc, Limit lim]
    \<and> constraints StatusNotContacted lim = [OrderByCreatedAtDesc, Limit (3 * lim)]
    \<and> getAll \<lparr> p_status = Some StatusContacted, p_search = q, p_page = pg, p_limit = Some lim \<rparr> s =
        (Inr \<lparr> success = True,
               data = take lim (searchClientFilter q (map docToLead
                        (take lim (rev (sort_key created_key (filter (\<lambda>d. d_created_at d \<noteq> None)
                           (filter (status_in [''contacted'', ''qualified'', ''converted''])
                              (leads_docs s)))))))),
               total = length (leads_docs s),
               page = (case pg of None \<Rightarrow> 1 | Some v \<Rightarrow> v), limit = lim,
               totalPages = ceilDiv (length (leads_docs s)) lim,
               stats = wholeStats s \<rparr>,
         s\<lparr>calls := calls s @
              [GetDocs [WhereStatusIn [''contacted'', ''qualified'', ''converted''],
                        OrderByCreatedAtDesc, Limit lim],
               GetCount [],
               GetCount [WhereStatusIn [''contacted'', ''qualified'', ''converted'']]]\<rparr>)
    \<and> getAll \<lparr> p_status = Some StatusNotContacted, p_search = q, p_page = pg, p_limit = Some lim \<rparr> s =
        (Inr \<lparr> success = True,
               data = take lim (searchClientFilter q
                        (filter (\<lambda>l. status l = JString ''new'' \<or> \<not> truthy (status l))
                           (map docToLead
                              (take (3 * lim) (rev (sort_key created_key
                                 (filter (\<lambda>d. d_created_at d \<noteq> None) (leads_docs s)))))))),
               total = length (leads_docs s),
               page = (case pg of None \<Rightarrow> 1 | Some v \<Rightarrow> v), limit = lim,
               totalPages = ceilDiv (length (leads_docs s)) lim,
               stats = wholeStats s \<rparr>,
         s\<lparr>calls := calls s @
              [GetDocs [OrderByCreatedAtDesc, Limit (3 * lim)],
               GetCount [],
               GetCount [WhereStatusIn [''contacted'', ''qualified'', ''converted'']]]\<rparr>)"
proof -
  have c1: "constraints StatusContacted lim =
      [WhereStatusIn [''contacted'', ''qualified'', ''converted''], OrderByCreatedAtDesc, Limit lim]"
    by (simp add: constraints_def fetchLimit_def contactedStatuses_def)
  have c2: "constraints StatusNotContacted lim = [OrderByCreatedAtDesc, Limit (3 * lim)]"
    by (simp add: constraints_def fetchLimit_def mult.commute)
  have np: "notContactedPred = (\<lambda>l. status l = JString ''new'' \<or> \<not> truthy (status l))"
    by (rule ext) (simp add: notContactedPred_def)
  have g1: "getAll \<lparr> p_status = Some StatusContacted, p_search = q, p_page = pg, p_limit = Some lim \<rparr> s = 
       (Inr \<lparr> success = True,
               data = take lim (searchClientFilter q (map docToLead
                        (take lim (rev (sort_key created_key (filter (\<lambda>d. d_created_at d \<noteq> None)
                           (filter (status_in [''contacted'', ''qualified'', ''converted''])
                              (leads_docs s)))))))),
               total = length (leads_docs s),
               page = (case pg of None \<Rightarrow> 1 | Some v \<Rightarrow> v), limit = lim,
               totalPages = ceilDiv (length (leads_docs s)) lim,
               stats = wholeStats s \<rparr>,
         s\<lparr>calls := calls s @
              [GetDocs [WhereStatusIn [''contacted'', ''qualified'', ''converted''],
                        OrderByCreatedAtDesc, Limit lim],
               GetCount [],
               GetCount [WhereStatusIn [''contacted'', ''qualified'', ''converted'']]]\<rparr>)"
    using assms
    by (subst getAll_up)
       (simp_all add: statusParam_def limitParam_def pageParam_def fetchLimit_pos c1
          run_query_def statusClientFilter_def contactedStatuses_def)
  have g2: "getAll \<lparr> p_status = Some StatusNotContacted, p_search = q, p_page = pg, p_limit = Some lim \<rparr> s =
        (Inr \<lparr> success = True,
               data = take lim (searchClientFilter q
                        (filter (\<lambda>l. status l = JString ''new'' \<or> \<not> truthy (status l))
                           (map docToLead
                              (take (3 * lim) (rev (sort_key created_key
                                 (filter (\<lambda>d. d_created_at d \<noteq> None) (leads_docs s)))))))),
               total = length (leads_docs s),
               page = (case pg of None \<Rightarrow> 1 | Some v \<Rightarrow> v), limit = lim,
               totalPages = ceilDiv (length (leads_docs s)) lim,
               stats = wholeStats s \<rparr>,
         s\<lparr>calls := calls s @
              [GetDocs [OrderByCreatedAtDesc, Limit (3 * lim)],
               GetCount [],
               GetCount [WhereStatusIn [''contacted'', ''qualified'', ''converted'']]]\<rparr>)"
    using assms
    by (subst getAll_up)
       (simp_all add: statusParam_def limitParam_def pageParam_def fetchLimit_pos c2
          run_query_def statusClientFilter_def contactedStatuses_def np)
  show ?thesis using c1 c2 g1 g2 by blast
qed

text \<open>
  Both queries on the two-lead collection.
\<close>

theorem getAll_status_policy_witness:
  "leads_up store2 \<and> (0::nat) < 10
   \<and> fst (getAll \<lparr> p_status = Some StatusContacted, p_search = None, p_page = None,
                    p_limit = Some 10 \<rparr> store2)
       = Inr \<lparr> success = True, data = [docToLead docB], total = 2, page = 1, limit = 10,
               totalPages = 1, stats = \<lparr> all = 2, notContacted = 1, contacted = 1 \<rparr> \<rparr>
   \<and> fst (getAll \<lparr> p_status = Some StatusNotContacted, p_search = None, p_page = None,
                    p_limit = Some 10 \<rparr> store2)
       = Inr \<lparr> success = True, data = [docToLead docA], total = 2, page = 1, limit = 10,
               totalPages = 1, stats = \<lparr> all = 2, notContacted = 1, contacted = 1 \<rparr> \<rparr>"
proof -
  have h1: "leads_up store2" by (simp add: docA_def docB_def emptyStore_def store2_def)
  have h2: "(0::nat) < 10" by simp
  note t = getAll_status_policy[OF h1 h2, of None None]
  have e1: "take 10 (searchClientFilter None (map docToLead
              (take 10 (rev (sort_key created_key (filter (\<lambda>d. d_created_at d \<noteq> None)
                 (filter (status_in [''contacted'', ''qualified'', ''converted''])
                    (leads_docs store2)))))))) = [docToLead docB]"
    by (simp add: docA_def docB_def emptyStore_def store2_def searchClientFilter_def
        status_in_def)
  have e2: "take 10 (searchClientFilter None
              (filter (\<lambda>l. status l = JString ''new'' \<or> \<not> truthy (status l))
                 (map docToLead
                    (take (3 * 10) (rev (sort_key created_key
                       (filter (\<lambda>d. d_created_at d \<noteq> None) (leads_docs store2))))))))
            = [docToLead docA]"
    by (simp add: docA_def docB_def emptyStore_def store2_def searchClientFilter_def
        created_key_def docToLead_def)
  have e3: "wholeStats store2 = \<lparr> all = 2, notContacted = 1, contacted = 1 \<rparr>"
    by (simp add: wholeStats_def docA_def docB_def emptyStore_def store2_def status_in_def
        contactedStatuses_def)
  have e4: "length (leads_docs store2) = 2" "ceilDiv 2 10 = 1"
    by (simp_all add: docA_def docB_def emptyStore_def store2_def ceilDiv_def)
  show ?thesis
    using h1 t unfolding e1 e2 e3 e4 by simp
qed

text \<open>
  C1. The specification has \<open>getAll\<close> return the slice \<open>[(p-1)*L, p*L)\<close> of the
  filtered rows. On the two-lead collection with \<open>limit = 1\<close>, page 1 and page 2 return
  the same row, the most recent lead: the page is only copied into the result.
\<close>

theorem getAll_page_ignored:
  "fst (getAll \<lparr> p_status = None, p_search = None, p_page = Some 1, p_limit = Some 1 \<rparr> store2)
     = Inr \<lparr> success = True, data = [docToLead docA], total = 2, page = 1, limit = 1,
             totalPages = 2, stats = \<lparr> all = 2, notContacted = 1, contacted = 1 \<rparr> \<rparr>
   \<and> fst (getAll \<lparr> p_status = None, p_search = None, p_page = Some 2, p_limit = Some 1 \<rparr> store2)
     = Inr \<lparr> success = True, data = [docToLead docA], total = 2, page = 2, limit = 1,
             totalPages = 2, stats = \<lparr> all = 2, notContacted = 1, contacted = 1 \<rparr> \<rparr>"
  by (simp add: getAll_def getDocs_def getStats_def getCountFromServer_def run_query_def
      constraints_def fetchLimit_def issue_def statusClientFilter_def
      searchClientFilter_def ceilDiv_def contactedStatuses_def created_key_def
      docToLead_def statusParam_def pageParam_def limitParam_def status_in_def
      notContactedPred_def searchPred_def leadsAPI_getAll_def toAPILead_def Lead.defs
      docA_def docB_def emptyStore_def store2_def)

text \<open>
  C4. The specification has \<open>totalPages\<close> equal \<open>ceil(T/L)\<close>, or 1 when \<open>T = 0\<close>, and
  a page beyond \<open>totalPages\<close> is empty. On the empty collection \<open>getAll\<close> returns
  \<open>totalPages = 0\<close>; on the two-lead collection with \<open>limit = 10\<close>, page 3 of 1
  returns both leads.
\<close>

theorem getAll_page_bounds_fail:
  "fst (getAll \<lparr> p_status = None, p_search = None, p_page = None, p_limit = None \<rparr> emptyStore)
     = Inr \<lparr> success = True, data = [], total = 0, page = 1, limit = 15,
             totalPages = 0, stats = \<lparr> all = 0, notContacted = 0, contacted = 0 \<rparr> \<rparr>
   \<and> fst (getAll \<lparr> p_status = None, p_search = None, p_page = Some 3, p_limit = Some 10 \<rparr> store2)
     = Inr \<lparr> success = True, data = [docToLead docA, docToLead docB], total = 2, page = 3,
             limit = 10, totalPages = 1,
             stats = \<lparr> all = 2, notContacted = 1, contacted = 1 \<rparr> \<rparr>"
  by (simp add: getAll_def getDocs_def getStats_def getCountFromServer_def run_query_def
      constraints_def fetchLimit_def issue_def statusClientFilter_def
      searchClientFilter_def ceilDiv_def contactedStatuses_def created_key_def
      docToLead_def statusParam_def pageParam_def limitParam_def status_in_def
      notContactedPred_def searchPred_def leadsAPI_getAll_def toAPILead_def Lead.defs
      docA_def docB_def emptyStore_def store2_def)

section \<open>Not-found conditions\<close>

text \<open>
  C9, as the code has it. For an id the collection does not hold and a reachable store,
  \<open>getById\<close> fails with the adapter's "Lead not found" and \<open>update\<close>, given a partial
  lead without an \<open>undefined\<close> value, fails with the store's not-found error, while
  \<open>delete\<close> reports success and leaves the collection as it was. When the store cannot
  be reached the three operations fail with the transport error, which is a different
  error. A partial lead with an \<open>undefined\<close> value is refused as an invalid argument
  whether or not the id exists and the store can be reached.
\<close>

theorem absent_id_outcomes:
  assumes "lookupDoc i s = None"
  shows "(leads_up s \<longrightarrow>
            fst (getById i s) = Inl LeadNotFound
            \<and> fst (update i p s) =
                (if hasUndefinedValue p then Inl InvalidArgument else Inl FirestoreNotFound)
            \<and> fst (delete i s) = Inr True
            \<and> leads_docs (snd (delete i s)) = leads_docs s)
         \<and> (\<not> leads_up s \<longrightarrow>
            fst (getById i s) = Inl Unavailable
            \<and> fst (update i p s) =
                (if hasUndefinedValue p then Inl InvalidArgument else Inl Unavailable)
            \<and> fst (delete i s) = Inl Unavailable)"
proof -
  from assms have nf: "\<forall>d \<in> set (leads_docs s). doc_id d \<noteq> i"
    by (auto simp: lookupDoc_def find_None_iff)
  then have flt: "filter (\<lambda>d. doc_id d \<noteq> i) (leads_docs s) = leads_docs s"
    by (simp add: filter_id_conv)
  show ?thesis using assms flt
    by (simp add: getById_def getDoc_def update_def updateDoc_def delete_def deleteDoc_def
        issue_def)
qed

text \<open>
  An id that the two-lead collection does not hold, with the store reachable and not,
  and a status update with a defined and with an \<open>undefined\<close> value.
\<close>

theorem absent_id_outcomes_witness:
  "lookupDoc ''ghost'' store2 = None \<and> leads_up store2
   \<and> fst (getById ''ghost'' store2) = Inl LeadNotFound
   \<and> fst (update ''ghost'' (statusPatch ''contacted'') store2) = Inl FirestoreNotFound
   \<and> fst (update ''ghost''
             \<lparr> patch_business_name = None, patch_category = None,
               patch_status = Some JUndefined \<rparr> store2) = Inl InvalidArgument
   \<and> fst (delete ''ghost'' store2) = Inr True
   \<and> lookupDoc ''ghost'' (store2\<lparr>leads_up := False\<rparr>) = None
   \<and> fst (getById ''ghost'' (store2\<lparr>leads_up := False\<rparr>)) = Inl Unavailable
   \<and> fst (update ''ghost'' (statusPatch ''contacted'') (store2\<lparr>leads_up := False\<rparr>))
       = Inl Unavailable
   \<and> fst (delete ''ghost'' (store2\<lparr>leads_up := False\<rparr>)) = Inl Unavailable"
proof -
  let ?u = "\<lparr> patch_business_name = None, patch_category = None,
               patch_status = Some JUndefined \<rparr>"
  have h1: "lookupDoc ''ghost'' store2 = None"
    by (simp add: lookupDoc_def docA_def docB_def emptyStore_def store2_def)
  have h2: "lookupDoc ''ghost'' (store2\<lparr>leads_up := False\<rparr>) = None"
    by (simp add: lookupDoc_def docA_def docB_def emptyStore_def store2_def)
  have u1: "leads_up store2" and u2: "\<not> leads_up (store2\<lparr>leads_up := False\<rparr>)"
    by (simp_all add: docA_def docB_def emptyStore_def store2_def)
  have d1: "\<not> hasUndefinedValue (statusPatch ''contacted'')" and d2: "hasUndefinedValue ?u"
    by (simp_all add: hasUndefinedValue_def statusPatch_def)
  show ?thesis
    using h1 h2 u1 u2 d1 d2
      absent_id_outcomes[OF h1, of "statusPatch ''contacted''"]
      absent_id_outcomes[OF h1, of ?u]
      absent_id_outcomes[OF h2, of "statusPatch ''contacted''"]
    by simp
qed

text \<open>
  C9 as stated fails for \<open>delete\<close>: deleting an absent id reports success.
\<close>

theorem delete_absent_counterexample:
  "lookupDoc ''ghost'' store2 = None \<and> leads_up store2
   \<and> fst (delete ''ghost'' store2) = Inr True"
  by (simp add: lookupDoc_def delete_def deleteDoc_def issue_def docA_def docB_def
      emptyStore_def store2_def)

section \<open>The mark-contacted flow\<close>

lemma handleSubmit_rejects:
  assumes "requiresNotes l" and "length (trim notes) < 10"
  shows "handleSubmit l notes user m dt s =
     (\<lparr> shown_error = Some ''Please add notes about the contact (minimum 10 characters)'', onSuccess = None, onClose = False,
        modal_console = [] \<rparr>, s)"
  using assms by (simp add: handleSubmit_def)

lemma handleSubmit_accepts_calls:
  assumes "10 \<le> length (trim notes)"
  shows "take (Suc (length (calls s))) (calls (snd (handleSubmit l notes user m dt s)))
          = calls s @ [UpdateDoc (api_id l)]"
proof (cases "leads_up s \<and> lookupDoc (api_id l) s \<noteq> None")
  case True
  then obtain d0 where d0: "lookupDoc (api_id l) s = Some d0" and up: "leads_up s" by auto
  show ?thesis using assms
    by (simp add: handleSubmit_def leadsAPI_update_def update_existing[OF statusPatch_defined up d0]
        notesAPI_create_def notes_create_def addDoc_def issue_def split: option.splits)
next
  case False
  then have "\<not> leads_up s \<or> lookupDoc (api_id l) s = None" by auto
  from update_fails[OF statusPatch_defined this, of "newStatus l"] obtain e where
    "update (api_id l) (statusPatch (newStatus l)) s = (Inl e, s\<lparr>calls := calls s @ [UpdateDoc (api_id l)]\<rparr>)"
    by blast
  then show ?thesis using assms
    by (simp add: handleSubmit_def leadsAPI_update_def)
qed

lemma handleSubmit_accepts_error:
  assumes "10 \<le> length (trim notes)"
  shows "shown_error (fst (handleSubmit l notes user m dt s))
          \<noteq> Some ''Please add notes about the contact (minimum 10 characters)''"
proof (cases "leads_up s \<and> lookupDoc (api_id l) s \<noteq> None")
  case True
  then obtain d0 where d0: "lookupDoc (api_id l) s = Some d0" and up: "leads_up s" by auto
  show ?thesis using assms
    by (simp add: handleSubmit_def leadsAPI_update_def update_existing[OF statusPatch_defined up d0]
        notesAPI_create_def notes_create_def addDoc_def issue_def split: option.splits)
next
  case False
  then have "\<not> leads_up s \<or> lookupDoc (api_id l) s = None" by auto
  from update_fails[OF statusPatch_defined this, of "newStatus l"] obtain e where
    "update (api_id l) (statusPatch (newStatus l)) s = (Inl e, s\<lparr>calls := calls s @ [UpdateDoc (api_id l)]\<rparr>)"
    by blast
  then show ?thesis using assms
    by (simp add: handleSubmit_def leadsAPI_update_def)
qed

lemma handleSubmit_marks_contacted:
  assumes "requiresNotes l" and "10 \<le> length (trim notes)"
    and "leads_up s" and "lookupDoc (api_id l) s = Some d0"
  shows "handleSubmit l notes (Some u) m dt s =
     (if notes_up s
      then (\<lparr> shown_error = None,
               onSuccess = Some (toAPILead (docToLead (d0\<lparr>d_status := JString ''contacted''\<rparr>))),
               onClose = True, modal_console = [] \<rparr>,
            s\<lparr>leads_docs := map (\<lambda>d. if doc_id d = api_id l then d\<lparr>d_status := JString ''contacted''\<rparr> else d) (leads_docs s),
              notes_docs := notes_docs s @ [\<lparr> lead_id = api_id l, content = trim notes, created_by = u,
                                             contact_method = m, contact_date = dt \<rparr>],
              calls := calls s @ [UpdateDoc (api_id l), GetDoc (api_id l), AddNote (api_id l)]\<rparr>)
      else (\<lparr> shown_error = None,
               onSuccess = Some (toAPILead (docToLead (d0\<lparr>d_status := JString ''contacted''\<rparr>))),
               onClose = True, modal_console = [ConsoleWarn Unavailable] \<rparr>,
            s\<lparr>leads_docs := map (\<lambda>d. if doc_id d = api_id l then d\<lparr>d_status := JString ''contacted''\<rparr> else d) (leads_docs s),
              calls := calls s @ [UpdateDoc (api_id l), GetDoc (api_id l), AddNote (api_id l)]\<rparr>))"
proof -
  have ns: "newStatus l = ''contacted''"
    using assms(1) by (simp add: newStatus_def requiresNotes_def)
  have ap: "\<And>d. apply_patch (statusPatch ''contacted'') d = d\<lparr>d_status := JString ''contacted''\<rparr>"
    by (simp add: apply_patch_def statusPatch_def)
  have ne: "trim notes \<noteq> []" using assms(2) by auto
  show ?thesis
    using assms(1,2) ne
    by (simp add: handleSubmit_def leadsAPI_update_def update_existing[OF statusPatch_defined assms(3,4)] ns ap
        notesAPI_create_def notes_create_def addDoc_def issue_def)
qed

text \<open>
  C7. For a lead that is not yet contacted, the content of the note is the trimmed text
  of the notes field. When it is shorter than 10 characters (so at length 9),
  \<open>handleSubmit\<close> shows the validation error and returns the store untouched: no call
  was issued. When it has at least 10 characters (so at length 10) the validation error
  is not shown and the first call issued is the status update; with both collections
  reachable, the lead present and a user signed in, the note is stored with that content.
  The backend itself stores a note of any length.
\<close>

theorem note_minimum_length:
  assumes "requiresNotes l"
  shows "(length (trim notes) < 10 \<longrightarrow>
            handleSubmit l notes user m dt s =
              (\<lparr> shown_error = Some ''Please add notes about the contact (minimum 10 characters)'',
                 onSuccess = None, onClose = False, modal_console = [] \<rparr>, s))
       \<and> (10 \<le> length (trim notes) \<longrightarrow>
            shown_error (fst (handleSubmit l notes user m dt s))
              \<noteq> Some ''Please add notes about the contact (minimum 10 characters)''
            \<and> take (Suc (length (calls s))) (calls (snd (handleSubmit l notes user m dt s)))
                = calls s @ [UpdateDoc (api_id l)])
       \<and> (10 \<le> length (trim notes) \<and> leads_up s \<and> notes_up s \<and> lookupDoc (api_id l) s \<noteq> None \<longrightarrow>
            shown_error (fst (handleSubmit l notes (Some u) m dt s)) = None
            \<and> notes_docs (snd (handleSubmit l notes (Some u) m dt s)) =
                notes_docs s @ [\<lparr> lead_id = api_id l, content = trim notes, created_by = u,
                                  contact_method = m, contact_date = dt \<rparr>])
       \<and> (notes_up s \<longrightarrow>
            fst (notesAPI_create i c u m dt s) = Inr (length (notes_docs s))
            \<and> notes_docs (snd (notesAPI_create i c u m dt s)) =
                notes_docs s @ [\<lparr> lead_id = i, content = c, created_by = u,
                                  contact_method = m, contact_date = dt \<rparr>])"
proof -
  have a: "length (trim notes) < 10 \<longrightarrow>
            handleSubmit l notes user m dt s =
              (\<lparr> shown_error = Some ''Please add notes about the contact (minimum 10 characters)'',
                 onSuccess = None, onClose = False, modal_console = [] \<rparr>, s)"
    using handleSubmit_rejects[OF assms] by simp
  have b: "10 \<le> length (trim notes) \<longrightarrow>
            shown_error (fst (handleSubmit l notes user m dt s))
              \<noteq> Some ''Please add notes about the contact (minimum 10 characters)''
            \<and> take (Suc (length (calls s))) (calls (snd (handleSubmit l notes user m dt s)))
                = calls s @ [UpdateDoc (api_id l)]"
    using handleSubmit_accepts_error handleSubmit_accepts_calls by blast
  have c: "10 \<le> length (trim notes) \<and> leads_up s \<and> notes_up s \<and> lookupDoc (api_id l) s \<noteq> None \<longrightarrow>
            shown_error (fst (handleSubmit l notes (Some u) m dt s)) = None
            \<and> notes_docs (snd (handleSubmit l notes (Some u) m dt s)) =
                notes_docs s @ [\<lparr> lead_id = api_id l, content = trim notes, created_by = u,
                                  contact_method = m, contact_date = dt \<rparr>]"
  proof (intro impI)
    assume h: "10 \<le> length (trim notes) \<and> leads_up s \<and> notes_up s \<and> lookupDoc (api_id l) s \<noteq> None"
    then obtain d0 where d0: "lookupDoc (api_id l) s = Some d0" by auto
    from h have len: "10 \<le> length (trim notes)" and up: "leads_up s" and nup: "notes_up s" by auto
    show "shown_error (fst (handleSubmit l notes (Some u) m dt s)) = None
            \<and> notes_docs (snd (handleSubmit l notes (Some u) m dt s)) =
                notes_docs s @ [\<lparr> lead_id = api_id l, content = trim notes, created_by = u,
                                  contact_method = m, contact_date = dt \<rparr>]"
      by (simp add: handleSubmit_marks_contacted[OF assms len up d0] nup)
  qed
  have d: "notes_up s \<longrightarrow>
            fst (notesAPI_create i c u m dt s) = Inr (length (notes_docs s))
            \<and> notes_docs (snd (notesAPI_create i c u m dt s)) =
                notes_docs s @ [\<lparr> lead_id = i, content = c, created_by = u,
                                  contact_method = m, contact_date = dt \<rparr>]"
    by (simp add: notesAPI_create_def notes_create_def addDoc_def issue_def)
  show ?thesis using a b c d by blast
qed

text \<open>
  A text of 9 characters and one of 10, for the lead without a stored status.
\<close>

theorem note_minimum_length_witness:
  "requiresNotes (toAPILead (docToLead docA))
   \<and> length (trim ''Too short'') = 9
   \<and> handleSubmit (toAPILead (docToLead docA)) ''Too short'' (Some ''Ann'') ''phone''
        ''2024-05-01T10:00'' store2
       = (\<lparr> shown_error = Some ''Please add notes about the contact (minimum 10 characters)'',
            onSuccess = None, onClose = False, modal_console = [] \<rparr>, store2)
   \<and> length (trim ''Called him'') = 10
   \<and> calls (snd (handleSubmit (toAPILead (docToLead docA)) ''Called him'' (Some ''Ann'')
                    ''phone'' ''2024-05-01T10:00'' store2))
       = [UpdateDoc ''a'', GetDoc ''a'', AddNote ''a'']
   \<and> notes_docs (snd (handleSubmit (toAPILead (docToLead docA)) ''Called him'' (Some ''Ann'')
                         ''phone'' ''2024-05-01T10:00'' store2))
       = [\<lparr> lead_id = ''a'', content = ''Called him'', created_by = ''Ann'',
            contact_method = ''phone'', contact_date = ''2024-05-01T10:00'' \<rparr>]
   \<and> fst (notesAPI_create ''a'' ''Too short'' ''Ann'' ''phone'' ''2024-05-01T10:00'' store2)
       = Inr 0"
proof -
  let ?l = "toAPILead (docToLead docA)"
  have r: "requiresNotes ?l"
    by (simp add: handleSubmit_def requiresNotes_def newStatus_def modal_isContacted_def
        statusPatch_def leadsAPI_update_def update_def updateDoc_def getDoc_def
        lookupDoc_def apply_patch_def notesAPI_create_def notes_create_def addDoc_def
        docToLead_def toAPILead_def Lead.defs docA_def docB_def emptyStore_def store2_def)
  have n9: "length (trim ''Too short'') = 9" and n10: "length (trim ''Called him'') = 10"
    by (simp_all add: toLowerCase_def lowerChar_def isUpper_def trim_def isWhiteSpace_def
        splitCommaFirst_def)
  have t10: "trim ''Called him'' = ''Called him''"
    by (simp add: toLowerCase_def lowerChar_def isUpper_def trim_def isWhiteSpace_def
        splitCommaFirst_def)
  have id: "api_id ?l = ''a''"
    by (simp add: docToLead_def toAPILead_def Lead.defs APILead.defs docA_def docB_def
        emptyStore_def store2_def)
  have st: "leads_up store2" "notes_up store2" "lookupDoc ''a'' store2 \<noteq> None"
    "notes_docs store2 = []" "calls store2 = []"
    by (simp_all add: lookupDoc_def docA_def docB_def emptyStore_def store2_def)
  have c: "calls (snd (handleSubmit ?l ''Called him'' (Some ''Ann'')
                    ''phone'' ''2024-05-01T10:00'' store2))
       = [UpdateDoc ''a'', GetDoc ''a'', AddNote ''a'']"
    by (simp add: handleSubmit_def requiresNotes_def newStatus_def modal_isContacted_def
        statusPatch_def leadsAPI_update_def update_def updateDoc_def hasUndefinedValue_def
        getDoc_def lookupDoc_def apply_patch_def notesAPI_create_def notes_create_def
        addDoc_def issue_def toLowerCase_def lowerChar_def isUpper_def trim_def isWhiteSpace_def
        splitCommaFirst_def docToLead_def toAPILead_def Lead.defs
        APILead.defs docA_def docB_def emptyStore_def store2_def)
  show ?thesis
    using r n9 n10 c
      note_minimum_length[OF r, of "''Too short''" "Some ''Ann''" "''phone''"
        "''2024-05-01T10:00''" store2 "''Ann''" "''a''" "''Too short''"]
      note_minimum_length[OF r, of "''Called him''" "Some ''Ann''" "''phone''"
        "''2024-05-01T10:00''" store2 "''Ann''" "''a''" "''Too short''"]
    by (simp add: id st t10)
qed

text \<open>
  C8. When the status update succeeds and the note cannot be written, \<open>handleSubmit\<close>
  shows no error, hands the updated lead to \<open>onSuccess\<close> and closes; the failure is a
  console warning only. The stored lead has status contacted and no note was added.
\<close>

theorem note_failure_tolerated:
  assumes "requiresNotes l" and "10 \<le> length (trim notes)"
    and "leads_up s" and "lookupDoc (api_id l) s = Some d0" and "\<not> notes_up s"
  shows "handleSubmit l notes (Some u) m dt s =
           (\<lparr> shown_error = None,
              onSuccess = Some (toAPILead (docToLead (d0\<lparr>d_status := JString ''contacted''\<rparr>))),
              onClose = True, modal_console = [ConsoleWarn Unavailable] \<rparr>,
            s\<lparr>leads_docs := map (\<lambda>d. if doc_id d = api_id l
                                       then d\<lparr>d_status := JString ''contacted''\<rparr> else d)
                                (leads_docs s),
              calls := calls s @ [UpdateDoc (api_id l), GetDoc (api_id l), AddNote (api_id l)]\<rparr>)
         \<and> lookupDoc (api_id l) (snd (handleSubmit l notes (Some u) m dt s))
             = Some (d0\<lparr>d_status := JString ''contacted''\<rparr>)
         \<and> notes_docs (snd (handleSubmit l notes (Some u) m dt s)) = notes_docs s"
proof -
  have ap: "(\<lambda>d. if doc_id d = api_id l then d\<lparr>d_status := JString ''contacted''\<rparr> else d)
     = (\<lambda>d. if doc_id d = api_id l then apply_patch (statusPatch ''contacted'') d else d)"
    by (rule ext) (simp add: apply_patch_def statusPatch_def)
  have ap0: "apply_patch (statusPatch ''contacted'') d0 = d0\<lparr>d_status := JString ''contacted''\<rparr>"
    by (simp add: apply_patch_def statusPatch_def)
  show ?thesis
    using assms(4,5)
    by (simp add: handleSubmit_marks_contacted[OF assms(1-4)] lookupDoc_def ap
        find_map_patch ap0)
qed

text \<open>
  The two-lead collection with the notes collection out of reach.
\<close>

theorem note_failure_tolerated_witness:
  "requiresNotes (toAPILead (docToLead docA))
   \<and> 10 \<le> length (trim ''Called him'')
   \<and> leads_up (store2\<lparr>notes_up := False\<rparr>)
   \<and> lookupDoc (api_id (toAPILead (docToLead docA))) (store2\<lparr>notes_up := False\<rparr>) = Some docA
   \<and> \<not> notes_up (store2\<lparr>notes_up := False\<rparr>)
   \<and> fst (handleSubmit (toAPILead (docToLead docA)) ''Called him'' (Some ''Ann'') ''phone''
             ''2024-05-01T10:00'' (store2\<lparr>notes_up := False\<rparr>))
       = \<lparr> shown_error = None,
           onSuccess = Some (toAPILead (docToLead (docA\<lparr>d_status := JString ''contacted''\<rparr>))),
           onClose = True, modal_console = [ConsoleWarn Unavailable] \<rparr>
   \<and> lookupDoc (api_id (toAPILead (docToLead docA)))
         (snd (handleSubmit (toAPILead (docToLead docA)) ''Called him''
                 (Some ''Ann'') ''phone'' ''2024-05-01T10:00'' (store2\<lparr>notes_up := False\<rparr>)))
       = Some (docA\<lparr>d_status := JString ''contacted''\<rparr>)
   \<and> notes_docs (snd (handleSubmit (toAPILead (docToLead docA)) ''Called him''
                         (Some ''Ann'') ''phone'' ''2024-05-01T10:00''
                         (store2\<lparr>notes_up := False\<rparr>))) = []"
proof -
  let ?l = "toAPILead (docToLead docA)"
  let ?s = "store2\<lparr>notes_up := False\<rparr>"
  have r: "requiresNotes ?l"
    by (simp add: handleSubmit_def requiresNotes_def newStatus_def modal_isContacted_def
        statusPatch_def leadsAPI_update_def update_def updateDoc_def getDoc_def
        lookupDoc_def apply_patch_def notesAPI_create_def notes_create_def addDoc_def
        docToLead_def toAPILead_def Lead.defs docA_def docB_def emptyStore_def store2_def)
  have n: "10 \<le> length (trim ''Called him'')"
    by (simp add: toLowerCase_def lowerChar_def isUpper_def trim_def isWhiteSpace_def
        splitCommaFirst_def)
  have up: "leads_up ?s" and nup: "\<not> notes_up ?s" and nd: "notes_docs ?s = []"
    by (simp_all add: docA_def docB_def emptyStore_def store2_def)
  have lk: "lookupDoc (api_id ?l) ?s = Some docA"
    by (simp add: lookupDoc_def docA_def docB_def emptyStore_def store2_def docToLead_def
        toAPILead_def Lead.defs APILead.defs)
  note t = note_failure_tolerated[OF r n up lk nup, of "''Ann''" "''phone''" "''2024-05-01T10:00''"]
  from t have t1: "fst (handleSubmit ?l ''Called him'' (Some ''Ann'') ''phone''
             ''2024-05-01T10:00'' ?s)
       = \<lparr> shown_error = None,
           onSuccess = Some (toAPILead (docToLead (docA\<lparr>d_status := JString ''contacted''\<rparr>))),
           onClose = True, modal_console = [ConsoleWarn Unavailable] \<rparr>"
    by simp
  from t have t2: "lookupDoc (api_id ?l)
         (snd (handleSubmit ?l ''Called him'' (Some ''Ann'') ''phone'' ''2024-05-01T10:00'' ?s))
       = Some (docA\<lparr>d_status := JString ''contacted''\<rparr>)"
    by blast
  from t have "notes_docs (snd (handleSubmit ?l ''Called him'' (Some ''Ann'') ''phone''
             ''2024-05-01T10:00'' ?s)) = notes_docs ?s"
    by blast
  then have t3: "notes_docs (snd (handleSubmit ?l ''Called him'' (Some ''Ann'') ''phone''
             ''2024-05-01T10:00'' ?s)) = []"
    by (simp only: nd)
  show ?thesis
    using r n up nup lk t1 t2 t3 by blast
qed

section \<open>The dashboard's stats\<close>

text \<open>
  C3, as the code has it. Every successful \<open>getAll\<close> carries the counts of the whole
  collection, from two count queries (one unfiltered, one with the contacted membership
  filter), with \<open>notContacted = all - contacted\<close>. On the thin path the dashboard shows
  these counts whatever the status filter and search text are. On the thick path (a
  category selected, snapshot not empty) it shows the counts of the filtered leads.
\<close>

theorem stats_scope:
  assumes "leads_up s"
  shows "(0 < limitParam ps \<longrightarrow>
            (\<exists>r s'. getAll ps s = (Inr r, s')
               \<and> stats r = wholeStats s
               \<and> notContacted (stats r) = all (stats r) - contacted (stats r)
               \<and> calls s' = calls s @ [GetDocs (constraints (statusParam ps) (limitParam ps)),
                                        GetCount [],
                                        GetCount [WhereStatusIn [''contacted'', ''qualified'', ''converted'']]]))
       \<and> (\<not> thickPath d \<and> 0 < itemsPerPage d \<longrightarrow>
            st_stats (fst (fetchLeads d s)) = wholeStats s)
       \<and> (thickPath d \<longrightarrow>
            st_stats (fst (fetchLeads d s)) = statsOf (filteredLeads d))"
proof -
  have a: "0 < limitParam ps \<longrightarrow>
            (\<exists>r s'. getAll ps s = (Inr r, s')
               \<and> stats r = wholeStats s
               \<and> notContacted (stats r) = all (stats r) - contacted (stats r)
               \<and> calls s' = calls s @ [GetDocs (constraints (statusParam ps) (limitParam ps)),
                                        GetCount [],
                                        GetCount [WhereStatusIn [''contacted'', ''qualified'', ''converted'']]])"
    using assms
    by (simp add: getAll_up fetchLimit_pos wholeStats_def contactedStatuses_def)
  have b: "\<not> thickPath d \<and> 0 < itemsPerPage d \<longrightarrow> st_stats (fst (fetchLeads d s)) = wholeStats s"
    using assms by (simp add: fetchLeads_thin)
  have c: "thickPath d \<longrightarrow> st_stats (fst (fetchLeads d s)) = statsOf (filteredLeads d)"
    by (simp add: fetchLeads_thick)
  show ?thesis using a b c by blast
qed

text \<open>
  The two-lead collection: the adapter, the thin path and the thick path.
\<close>

theorem stats_scope_witness:
  "leads_up store2
   \<and> 0 < limitParam \<lparr> p_status = Some StatusContacted, p_search = Some ''beta'',
                      p_page = None, p_limit = None \<rparr>
   \<and> fst (getAll \<lparr> p_status = Some StatusContacted, p_search = Some ''beta'',
                    p_page = None, p_limit = None \<rparr> store2)
       = Inr \<lparr> success = True, data = [docToLead docB], total = 2, page = 1, limit = 15,
               totalPages = 1, stats = \<lparr> all = 2, notContacted = 1, contacted = 1 \<rparr> \<rparr>
   \<and> \<not> thickPath (initialDashboard\<lparr>statusFilter := StatusContacted\<rparr>)
   \<and> 0 < itemsPerPage (initialDashboard\<lparr>statusFilter := StatusContacted\<rparr>)
   \<and> st_stats (fst (fetchLeads (initialDashboard\<lparr>statusFilter := StatusContacted\<rparr>) store2))
       = \<lparr> all = 2, notContacted = 1, contacted = 1 \<rparr>
   \<and> thickPath ((fst (fetchCategories initialDashboard store2))\<lparr>categoryFilter := ''retail''\<rparr>)
   \<and> st_stats (fst (fetchLeads ((fst (fetchCategories initialDashboard store2))
                                    \<lparr>categoryFilter := ''retail''\<rparr>) store2))
       = \<lparr> all = 1, notContacted = 1, contacted = 0 \<rparr>"
proof -
  let ?ps = "\<lparr> p_status = Some StatusContacted, p_search = Some ''beta'',
                      p_page = None, p_limit = None \<rparr>"
  let ?thin = "initialDashboard\<lparr>statusFilter := StatusContacted\<rparr>"
  let ?thick = "(fst (fetchCategories initialDashboard store2))\<lparr>categoryFilter := ''retail''\<rparr>"
  have up: "leads_up store2" by (simp add: docA_def docB_def emptyStore_def store2_def initialDashboard_def)
  have lp: "0 < limitParam ?ps" by (simp add: limitParam_def)
  have ga: "fst (getAll ?ps store2)
       = Inr \<lparr> success = True, data = [docToLead docB], total = 2, page = 1, limit = 15,
               totalPages = 1, stats = \<lparr> all = 2, notContacted = 1, contacted = 1 \<rparr> \<rparr>"
    by (simp add: getAll_def getDocs_def getStats_def getCountFromServer_def run_query_def
        constraints_def fetchLimit_def issue_def statusClientFilter_def
        searchClientFilter_def ceilDiv_def contactedStatuses_def created_key_def
        docToLead_def statusParam_def pageParam_def limitParam_def status_in_def
        notContactedPred_def searchPred_def leadsAPI_getAll_def toAPILead_def Lead.defs
        docA_def docB_def emptyStore_def store2_def initialDashboard_def toLowerCase_def
        lowerChar_def isUpper_def trim_def isWhiteSpace_def splitCommaFirst_def)
  have ws: "wholeStats store2 = \<lparr> all = 2, notContacted = 1, contacted = 1 \<rparr>"
    by (simp add: wholeStats_def docA_def docB_def emptyStore_def store2_def
        initialDashboard_def status_in_def contactedStatuses_def)
  have tn: "\<not> thickPath ?thin" "0 < itemsPerPage ?thin"
    by (simp_all add: thickPath_def docA_def docB_def emptyStore_def store2_def
        initialDashboard_def)
  have tk: "thickPath ?thick"
    by (simp add: getAll_def getDocs_def getStats_def getCountFromServer_def run_query_def
        constraints_def fetchLimit_def issue_def statusClientFilter_def
        searchClientFilter_def ceilDiv_def contactedStatuses_def created_key_def
        docToLead_def statusParam_def pageParam_def limitParam_def status_in_def
        notContactedPred_def searchPred_def leadsAPI_getAll_def toAPILead_def Lead.defs
        docA_def docB_def emptyStore_def store2_def initialDashboard_def fetchLeads_def
        fetchCategories_def thickPath_def filteredLeads_def thickStatusFilter_def
        thickSearchFilter_def categoryPred_def mainCategoryLower_def paginate_def)
  have so: "statsOf (filteredLeads ?thick) = \<lparr> all = 1, notContacted = 1, contacted = 0 \<rparr>"
    by (simp add: statsOf_def contactedSet_def getAll_def getDocs_def getStats_def
        getCountFromServer_def run_query_def constraints_def fetchLimit_def issue_def
        statusClientFilter_def searchClientFilter_def ceilDiv_def contactedStatuses_def
        created_key_def docToLead_def statusParam_def pageParam_def limitParam_def
        status_in_def notContactedPred_def searchPred_def leadsAPI_getAll_def toAPILead_def
        Lead.defs docA_def docB_def emptyStore_def store2_def initialDashboard_def
        fetchLeads_def fetchCategories_def thickPath_def filteredLeads_def
        thickStatusFilter_def thickSearchFilter_def categoryPred_def mainCategoryLower_def
        paginate_def toLowerCase_def lowerChar_def isUpper_def trim_def isWhiteSpace_def
        splitCommaFirst_def)
  show ?thesis
    using up lp ga tn tk stats_scope[OF up, of ?ps ?thin] stats_scope[OF up, of ?ps ?thick]
    by (simp only: ws so) blast
qed

text \<open>
  C3 as stated fails on the thick path: with the category retail selected the
  dashboard shows 1 lead in all, while the collection holds 2.
\<close>

theorem dashboard_stats_counterexample:
  "st_stats (fst (fetchLeads ((fst (fetchCategories initialDashboard store2))
                                 \<lparr>categoryFilter := ''retail''\<rparr>) store2))
     = \<lparr> all = 1, notContacted = 1, contacted = 0 \<rparr>
   \<and> fst (getStats store2) = Inr \<lparr> all = 2, notContacted = 1, contacted = 1 \<rparr>"
  by (simp add: getAll_def getDocs_def getStats_def getCountFromServer_def run_query_def
      constraints_def fetchLimit_def issue_def statusClientFilter_def
      searchClientFilter_def ceilDiv_def contactedStatuses_def created_key_def
      docToLead_def statusParam_def pageParam_def limitParam_def status_in_def
      notContactedPred_def searchPred_def leadsAPI_getAll_def toAPILead_def Lead.defs
      docA_def docB_def emptyStore_def store2_def initialDashboard_def fetchLeads_def
      fetchCategories_def thickPath_def filteredLeads_def thickStatusFilter_def
      thickSearchFilter_def categoryPred_def mainCategoryLower_def paginate_def
      toLowerCase_def lowerChar_def isUpper_def trim_def isWhiteSpace_def
      splitCommaFirst_def Let_def)

section \<open>Thin path and thick path\<close>













end
